theory Spec2Isabelle
  imports
    Complex_Main
    "HOL-Library.Char_ord"
    "HOL-Library.List_Lexorder"
    "HOL-Library.Multiset"
    "HOL-Library.Product_Lexorder"
begin

section \<open>Data model of \<^verbatim>\<open>train_pytorch_models.py\<close>\<close>

text \<open>
  Exceptions of the Python code are values of the type \<open>error\<close>; a function that can
  raise returns \<open>error + 'a\<close> with \<open>Inl\<close> for the exception.  \<open>ValueError\<close> carries
  its message (\<^verbatim>\<open>raise ValueError(task_name)\<close> carries the task name, the bare
  \<^verbatim>\<open>raise ValueError\<close> the empty string).
\<close>

datatype error =
    AssertionError
  | ValueError string
  | KeyError
  | AttributeError
  | IndexError
  | TypeError

text \<open>Sequencing of steps that can raise: the first exception ends the run.\<close>

definition then_err :: "error + 'a \<Rightarrow> ('a \<Rightarrow> error + 'b) \<Rightarrow> error + 'b" where
  "then_err r f = (case r of Inl e \<Rightarrow> Inl e | Inr x \<Rightarrow> f x)"

text \<open>
  A cell of a pandas frame or of a numpy array: a float (\<open>Num\<close>), a Python bool of an
  object column (\<open>Flag\<close>) or the missing value \<open>NaN\<close>.  Floats are modelled by the reals:
  the code copies, compares with constants and averages them, and no claim depends on
  rounding.  An intensity that is already NaN in the input table is outside this model.
\<close>

datatype val = NaN | Num real | Flag bool

text \<open>One row of the long-form table \<^verbatim>\<open>intensities_df\<close>; \<open>intensity\<close> is the column
  selected by \<^verbatim>\<open>intensity_column\<close>.\<close>

record observation =
  name_short :: string
  adduct :: string
  matrix :: string
  polarity :: string
  intensity :: real
  detected :: bool

text \<open>A wide frame: its row index (one list of level values per row), its column index
  (pairs (matrix, polarity)) and its cells.\<close>

record 'a frame =
  index :: "string list list"
  columns :: "(string \<times> string) list"
  cell :: "string list \<Rightarrow> string \<times> string \<Rightarrow> 'a"

definition to_numpy :: "'a frame \<Rightarrow> 'a list list" where
  "to_numpy fr = map (\<lambda>r. map (\<lambda>c. cell fr r c) (columns fr)) (index fr)"

text \<open>\<^verbatim>\<open>features_df\<close>: column names and rows labelled by molecule; \<^verbatim>\<open>adducts_one_hot\<close>:
  rows labelled by adduct.\<close>

record features_table =
  feat_columns :: "string list"
  feat_rows :: "(string \<times> real list) list"

section \<open>Reshaping the observations (lines 235--257)\<close>

definition obs_column :: "string \<Rightarrow> observation \<Rightarrow> string" where
  "obs_column col ob =
     (if col = ''name_short'' then name_short ob
      else if col = ''adduct'' then adduct ob
      else if col = ''matrix'' then matrix ob
      else polarity ob)"

definition row_key :: "string list \<Rightarrow> observation \<Rightarrow> string list" where
  "row_key index_cols ob = map (\<lambda>col. obs_column col ob) index_cols"

definition col_key :: "observation \<Rightarrow> string \<times> string" where
  "col_key ob = (matrix ob, polarity ob)"

definition lookup_obs ::
  "string list \<Rightarrow> observation list \<Rightarrow> string list \<Rightarrow> string \<times> string \<Rightarrow> observation option" where
  "lookup_obs index_cols df r c = find (\<lambda>ob. row_key index_cols ob = r \<and> col_key ob = c) df"

text \<open>The labels of a list, each once, in the order of their first appearance.\<close>

definition unique :: "'a list \<Rightarrow> 'a list" where
  "unique xs = rev (remdups (rev xs))"

text \<open>\<^verbatim>\<open>df.pivot(index=index_cols, columns=["matrix", "polarity"], values=...)\<close>: a
  duplicated (index, columns) combination raises; each label occurs once on its axis,
  the row labels sorted, the column labels in the order of their first appearance in
  the table; a combination that no row has is NaN.\<close>

definition pivot ::
  "string list \<Rightarrow> (observation \<Rightarrow> val) \<Rightarrow> observation list \<Rightarrow> error + val frame" where
  "pivot index_cols value_of df =
     (let keys = map (\<lambda>ob. (row_key index_cols ob, col_key ob)) df in
      if \<not> distinct keys
      then Inl (ValueError ''Index contains duplicate entries, cannot reshape'')
      else Inr \<lparr>index = sort (remdups (map fst keys)),
                columns = unique (map snd keys),
                cell = (\<lambda>r c. case lookup_obs index_cols df r c of
                                 None \<Rightarrow> NaN | Some ob \<Rightarrow> value_of ob)\<rparr>)"

text \<open>\<^verbatim>\<open>Y_detected.isna()\<close>\<close>

definition isna :: "val frame \<Rightarrow> bool frame" where
  "isna fr = \<lparr>index = index fr, columns = columns fr, cell = (\<lambda>r c. cell fr r c = NaN)\<rparr>"

text \<open>\<^verbatim>\<open>fr[mask] = v\<close> with a boolean frame as the mask.\<close>

definition assign_where :: "bool frame \<Rightarrow> val \<Rightarrow> val frame \<Rightarrow> val frame" where
  "assign_where msk v fr = fr\<lparr>cell := (\<lambda>r c. if cell msk r c then v else cell fr r c)\<rparr>"

text \<open>\<^verbatim>\<open>Y_detected == False\<close>: Python's \<^verbatim>\<open>==\<close> on the cells (\<^verbatim>\<open>0.0 == False\<close> holds,
  \<^verbatim>\<open>nan == False\<close> does not).\<close>

fun eq_False :: "val \<Rightarrow> bool" where
  "eq_False (Flag b) = (\<not> b)"
| "eq_False (Num x) = (x = 0)"
| "eq_False NaN = False"

definition frame_eq_False :: "val frame \<Rightarrow> bool frame" where
  "frame_eq_False fr = \<lparr>index = index fr, columns = columns fr, cell = (\<lambda>r c. eq_False (cell fr r c))\<rparr>"

text \<open>\<^verbatim>\<open>Y_detected.sum(axis=1) > 0\<close>: the sum of a row skips NaN and counts True as 1.\<close>

fun as_number :: "val \<Rightarrow> real" where
  "as_number (Flag b) = (if b then 1 else 0)"
| "as_number (Num x) = x"
| "as_number NaN = 0"

definition row_sum :: "val frame \<Rightarrow> string list \<Rightarrow> real" where
  "row_sum fr r = sum_list (map (\<lambda>c. as_number (cell fr r c)) (columns fr))"

text \<open>\<^verbatim>\<open>fr[row_mask]\<close>: the rows whose mask is true, in their order.\<close>

definition select_rows :: "(string list \<Rightarrow> bool) \<Rightarrow> 'a frame \<Rightarrow> 'a frame" where
  "select_rows row_mask fr = fr\<lparr>index := filter row_mask (index fr)\<rparr>"

text \<open>\<^verbatim>\<open>df.loc[labels]\<close> with a list of labels: a label that the index lacks raises
  KeyError; a label that the index has several times gives all its rows.\<close>

definition loc_rows :: "('k \<times> 'a) list \<Rightarrow> 'k list \<Rightarrow> error + 'a list" where
  "loc_rows df labels =
     (if list_ex (\<lambda>l. l \<notin> set (map fst df)) labels then Inl KeyError
      else Inr (concat (map (\<lambda>l. map snd (filter (\<lambda>kv. fst kv = l) df)) labels)))"

text \<open>\<^verbatim>\<open>Index.get_level_values(i)\<close>; every label of an index has one value per level.\<close>

definition get_level_values :: "nat \<Rightarrow> string list list \<Rightarrow> error + string list" where
  "get_level_values i idx =
     (if list_ex (\<lambda>k. length k \<le> i) idx then Inl IndexError else Inr (map (\<lambda>k. k ! i) idx))"

text \<open>\<^verbatim>\<open>pd.DataFrame(array, index=idx)\<close>: the array must have one row per label.\<close>

definition with_index :: "string list list \<Rightarrow> 'a list \<Rightarrow> error + 'a list" where
  "with_index idx rows =
     (if length rows \<noteq> length idx then Inl (ValueError ''Shape of passed values'') else Inr rows)"

text \<open>Lines 254--257: the feature matrix, one row per row of Y: the molecule's features,
  followed (when adduct features are used) by the adduct's one-hot row.  Both frames
  carry Y's index, which has no repeated label, so the inner join pairs the rows
  position by position.\<close>

definition build_X ::
  "features_table \<Rightarrow> (string \<times> real list) list \<Rightarrow> bool \<Rightarrow> string list list \<Rightarrow> error + real list list" where
  "build_X features_df adducts_one_hot use_adduct_features idx =
     then_err (get_level_values 0 idx) (\<lambda>mols.
     then_err (loc_rows (feat_rows features_df) mols) (\<lambda>frows.
     then_err (with_index idx frows) (\<lambda>X.
     if use_adduct_features then
       then_err (get_level_values 1 idx) (\<lambda>adds.
       then_err (loc_rows adducts_one_hot adds) (\<lambda>arows.
       then_err (with_index idx arows) (\<lambda>A.
       Inr (map (\<lambda>(x, a). x @ a) (zip X A)))))
     else Inr X)))"

section \<open>External components\<close>

text \<open>
  The training stack (Lightning's trainer, scikit-learn's splitter and clustering, the
  attribution technique, the ranking loss of allRank) is outside the repository.  Its
  entry points are the fields of \<open>externals\<close>; each can raise.  \<open>torch\<close> tells whether
  the import block of the module succeeded (\<^verbatim>\<open>torch is not None\<close>) and \<open>neuralNDCG\<close> is
  the module-level name of the ranking loss, \<open>None\<close> when its import failed.  The type
  \<open>'m\<close> stands for a fitted (or loaded) model.
\<close>

record NeuralNDCGLoss =
  loss_kwargs :: "(string \<times> val) list"

datatype activation = Sigmoid

datatype loss_function = Ranking_loss NeuralNDCGLoss | SorensenDiceLoss | MSELoss

text \<open>The arguments of the constructor \<^verbatim>\<open>SimpleTwoLayersNN(...)\<close>.\<close>

record model_spec =
  num_feat :: nat
  nb_in_feat :: nat
  nb_out_feat :: nat
  loss :: loss_function
  model_learning_rate :: real
  final_activation :: "activation option"
  has_ignore_mask :: bool

record dataset =
  data_X :: "real list list"
  data_Y :: "val list list option"
  data_ignore_mask :: "real list list option"

text \<open>Modelled from the spec: the dataset wrappers \<^verbatim>\<open>TrainValData\<close> and \<^verbatim>\<open>TestData\<close> of the
  sibling module \<^verbatim>\<open>pytorch_utils\<close>, which the spec describes as containers pairing a
  feature row with its target row and, if present, its ignore-mask row.\<close>

definition TrainValData :: "real list list \<Rightarrow> val list list \<Rightarrow> real list list option \<Rightarrow> dataset" where
  "TrainValData X Y ignore_mask = \<lparr>data_X = X, data_Y = Some Y, data_ignore_mask = ignore_mask\<rparr>"

definition TestData :: "real list list \<Rightarrow> dataset" where
  "TestData X = \<lparr>data_X = X, data_Y = None, data_ignore_mask = None\<rparr>"

text \<open>The arguments of \<^verbatim>\<open>DataLoader(...)\<close>; \<open>sampler\<close> holds the indices given to
  \<^verbatim>\<open>SubsetRandomSampler\<close>.\<close>

record loader =
  loaded :: dataset
  loader_batch_size :: nat
  sampler :: "nat list option"
  drop_last :: bool

record 'm externals =
  torch :: bool
  neuralNDCG :: "(real list list \<Rightarrow> real list list \<Rightarrow> (string \<times> val) list \<Rightarrow> error + real) option"
  StratifiedKFold_split :: "nat \<Rightarrow> nat \<Rightarrow> nat list \<Rightarrow> error + (nat list \<times> nat list) list"
  KMeans_labels :: "val list list \<Rightarrow> error + nat list"
  Trainer_fit :: "model_spec \<Rightarrow> loader \<Rightarrow> loader option \<Rightarrow> nat \<Rightarrow> error + 'm"
  Trainer_predict :: "'m \<Rightarrow> loader \<Rightarrow> error + (real list list \<times> nat list) list"
  load_from_checkpoint :: "string \<Rightarrow> error + 'm"
  random_choice :: "nat \<Rightarrow> nat \<Rightarrow> nat list"
  shap_values :: "'m \<Rightarrow> real list list \<Rightarrow> real list list \<Rightarrow> error + real list list list"

text \<open>
  What the code does to the outside world is kept as a log of events next to the result:
  a run is the list of events so far and either the exception that ended it or its value.
\<close>

datatype event = Model_constructed | Model_fitted | Model_predicted | Checkpoint_loaded | Explainer_run

type_synonym 'a run = "event list \<times> (error + 'a)"

definition ret :: "'a \<Rightarrow> 'a run" where
  "ret x = ([], Inr x)"

definition lift :: "error + 'a \<Rightarrow> 'a run" where
  "lift r = ([], r)"

definition emit :: "event \<Rightarrow> unit run" where
  "emit ev = ([ev], Inr ())"

definition then_run :: "'a run \<Rightarrow> ('a \<Rightarrow> 'b run) \<Rightarrow> 'b run" where
  "then_run m f =
     (case snd m of
        Inl e \<Rightarrow> (fst m, Inl e)
      | Inr x \<Rightarrow> (fst m @ fst (f x), snd (f x)))"

text \<open>\<^verbatim>\<open>X.shape[1]\<close> (an array without rows is taken to have no columns).\<close>

definition shape1 :: "'a list list \<Rightarrow> nat" where
  "shape1 xs = (case xs of [] \<Rightarrow> 0 | r # _ \<Rightarrow> length r)"

text \<open>\<^verbatim>\<open>ignore_mask.astype("float32")\<close> and \<^verbatim>\<open>.astype("bool")\<close>\<close>

definition astype_float32 :: "bool list list \<Rightarrow> real list list" where
  "astype_float32 m = map (map (\<lambda>b. if b then 1 else 0)) m"

definition astype_bool :: "real list list \<Rightarrow> bool list list" where
  "astype_bool m = map (map (\<lambda>x. x \<noteq> 0)) m"

section \<open>The ranking-loss adapter (lines 31--41)\<close>

definition NeuralNDCGLoss_init :: "'m externals \<Rightarrow> (string \<times> val) list \<Rightarrow> error + NeuralNDCGLoss" where
  "NeuralNDCGLoss_init ext kwargs =
     (case neuralNDCG ext of
        None \<Rightarrow> Inl AssertionError
      | Some f \<Rightarrow> Inr \<lparr>loss_kwargs = kwargs\<rparr>)"

text \<open>Calling the name \<^verbatim>\<open>neuralNDCG\<close> when it is \<^verbatim>\<open>None\<close> is a TypeError.\<close>

definition NeuralNDCGLoss_call ::
  "'m externals \<Rightarrow> NeuralNDCGLoss \<Rightarrow> real list list \<Rightarrow> real list list \<Rightarrow> error + real" where
  "NeuralNDCGLoss_call ext self pred gt =
     (case neuralNDCG ext of
        None \<Rightarrow> Inl TypeError
      | Some f \<Rightarrow> f pred gt (loss_kwargs self))"

section \<open>The single-model trainer (lines 44--74)\<close>

text \<open>\<^verbatim>\<open>np.concatenate\<close> of the batches; it raises on an empty list of batches.\<close>

definition concatenate :: "'a list list \<Rightarrow> error + 'a list" where
  "concatenate batches =
     (if batches = [] then Inl (ValueError ''need at least one array to concatenate'')
      else Inr (concat batches))"

definition train_torch_model ::
  "'m externals \<Rightarrow> model_spec \<Rightarrow> loader \<Rightarrow> loader option \<Rightarrow> loader option \<Rightarrow> nat \<Rightarrow>
   ('m \<times> (real list list \<times> nat list) option) run" where
  "train_torch_model ext model train_loader val_loader test_loader max_epochs =
     then_run (lift (Trainer_fit ext model train_loader val_loader max_epochs)) (\<lambda>trainer.
     then_run (emit Model_fitted) (\<lambda>_.
     case test_loader of
       None \<Rightarrow> ret (trainer, None)
     | Some loader \<Rightarrow>
         then_run (lift (Trainer_predict ext trainer loader)) (\<lambda>prediction.
         then_run (emit Model_predicted) (\<lambda>_.
         then_run (lift (concatenate (map fst prediction))) (\<lambda>pred_array.
         then_run (lift (concatenate (map snd prediction))) (\<lambda>pred_indices.
         ret (trainer, Some (pred_array, pred_indices))))))))"

section \<open>The cross-validation driver (lines 77--139)\<close>

record cv_row =
  row_index :: nat
  row_predictions :: "real list"
  fold_id :: nat

text \<open>Lines 95--103.\<close>

definition cross_val_task :: "'m externals \<Rightarrow> string \<Rightarrow> error + activation option \<times> loss_function" where
  "cross_val_task ext task_name =
     (if task_name = ''ranking'' then
        then_err (NeuralNDCGLoss_init ext []) (\<lambda>l. Inr (None, Ranking_loss l))
      else if task_name = ''detection'' then Inr (Some Sigmoid, SorensenDiceLoss)
      else Inl (ValueError task_name))"

text \<open>\<^verbatim>\<open>pd.DataFrame(pred_array, index=pred_indices)\<close> with the column \<^verbatim>\<open>fold\<close> added.\<close>

definition fold_results :: "real list list \<Rightarrow> nat list \<Rightarrow> nat \<Rightarrow> error + cv_row list" where
  "fold_results pred_array pred_indices fold_no =
     (if length pred_array \<noteq> length pred_indices then Inl (ValueError ''Shape of passed values'')
      else Inr (map (\<lambda>(i, p). \<lparr>row_index = i, row_predictions = p, fold_id = fold_no\<rparr>)
                    (zip pred_indices pred_array)))"

text \<open>The loop of lines 112--137 over the enumerated folds; \<open>fold_no\<close> is the number of the
  first fold of the list and \<open>all_results\<close> the table accumulated so far.\<close>

fun cross_val_folds ::
  "'m externals \<Rightarrow> model_spec \<Rightarrow> dataset \<Rightarrow> dataset \<Rightarrow> nat \<Rightarrow> nat \<Rightarrow> nat \<Rightarrow>
   (nat list \<times> nat list) list \<Rightarrow> cv_row list \<Rightarrow> cv_row list run" where
  "cross_val_folds ext model train_val_dataset test_data batch_size max_epochs fold_no [] all_results =
     ret all_results"
| "cross_val_folds ext model train_val_dataset test_data batch_size max_epochs fold_no
     ((train_index, test_index) # splits) all_results =
     (let train_loader = \<lparr>loaded = train_val_dataset, loader_batch_size = batch_size,
                           sampler = Some train_index, drop_last = True\<rparr>;
          val_loader = \<lparr>loaded = train_val_dataset, loader_batch_size = batch_size,
                         sampler = Some test_index, drop_last = False\<rparr>;
          test_loader = \<lparr>loaded = test_data, loader_batch_size = batch_size,
                          sampler = Some test_index, drop_last = False\<rparr>
      in
      then_run (emit Model_constructed) (\<lambda>_.
      then_run (train_torch_model ext model train_loader (Some val_loader) (Some test_loader) max_epochs)
        (\<lambda>(trainer, preds).
      case preds of
        None \<Rightarrow> lift (Inl TypeError)
      | Some (pred_array, pred_indices) \<Rightarrow>
          then_run (lift (fold_results pred_array pred_indices fold_no)) (\<lambda>lc_results.
          cross_val_folds ext model train_val_dataset test_data batch_size max_epochs (Suc fold_no)
            splits (all_results @ lc_results)))))"

definition train_torch_model_cross_val_loop ::
  "'m externals \<Rightarrow> real list list \<Rightarrow> val list list \<Rightarrow> string \<Rightarrow> nat list \<Rightarrow>
   bool list list option \<Rightarrow> nat \<Rightarrow> nat \<Rightarrow> real \<Rightarrow> nat \<Rightarrow> nat \<Rightarrow> cv_row list run" where
  "train_torch_model_cross_val_loop ext X Y task_name stratification_classes ignore_mask
     max_epochs batch_size learning_rate num_cross_val_folds num_hidden_layer_features =
     (let ignore_mask = map_option astype_float32 ignore_mask;
          train_val_dataset = TrainValData X Y ignore_mask;
          test_data = TestData X
      in
      then_run (lift (cross_val_task ext task_name)) (\<lambda>(final_activation, loss_function).
      then_run (lift (StratifiedKFold_split ext num_cross_val_folds (length X) stratification_classes))
        (\<lambda>splits.
      cross_val_folds ext
        \<lparr>num_feat = num_hidden_layer_features, nb_in_feat = shape1 X, nb_out_feat = shape1 Y,
         loss = loss_function, model_learning_rate = learning_rate,
         final_activation = final_activation, has_ignore_mask = (task_name = ''detection'')\<rparr>
        train_val_dataset test_data batch_size max_epochs 0 splits [])))"

section \<open>The feature-attribution driver (lines 143--214)\<close>

text \<open>Lines 162--174.\<close>

definition attribution_task :: "'m externals \<Rightarrow> string \<Rightarrow> error + activation option \<times> loss_function" where
  "attribution_task ext task_name =
     (if task_name = ''ranking'' then
        then_err (NeuralNDCGLoss_init ext []) (\<lambda>l. Inr (None, Ranking_loss l))
      else if task_name = ''detection'' then Inr (Some Sigmoid, SorensenDiceLoss)
      else if task_name = ''regression'' then Inr (None, MSELoss)
      else Inl (ValueError task_name))"

text \<open>Lines 199--201, the printed rank correlation: \<^verbatim>\<open>ignore_mask.flatten()\<close> needs an
  array, and a boolean mask selects from a flat array of its own length only.  The
  import of line 193 and the name \<^verbatim>\<open>scipy.stats\<close> are taken to resolve: Lightning
  and scikit-learn, which the module needs anyway, bring both along.\<close>

definition score_diagnostic ::
  "real list list option \<Rightarrow> (real list list \<times> nat list) list \<Rightarrow> val list list \<Rightarrow> error + unit" where
  "score_diagnostic ignore_mask predictions Y =
     (case ignore_mask of
        None \<Rightarrow> Inl AttributeError
      | Some m \<Rightarrow>
          (let ignore_mask_flatten = concat (astype_bool m) in
           then_err (concatenate (map fst predictions)) (\<lambda>pred_array.
           if length (concat pred_array) \<noteq> length ignore_mask_flatten then Inl IndexError
           else if length (concat Y) \<noteq> length ignore_mask_flatten then Inl IndexError
           else Inr ())))"

text \<open>Lines 206--212: 100 distinct rows of X drawn at random as the background, which
  raises when X has fewer rows, then the attribution values of every row of X.\<close>

definition explain :: "'m externals \<Rightarrow> 'm \<Rightarrow> real list list \<Rightarrow> real list list list run" where
  "explain ext model X =
     (if length X < 100
      then lift (Inl (ValueError ''Cannot take a larger sample than population''))
      else
        (let chosen = random_choice ext (length X) 100 in
         if list_ex (\<lambda>i. length X \<le> i) chosen then lift (Inl IndexError)
         else
           then_run (lift (shap_values ext model (map (\<lambda>i. X ! i) chosen) X)) (\<lambda>attributions.
           then_run (emit Explainer_run) (\<lambda>_. ret attributions))))"

definition features_selection_torch_model ::
  "'m externals \<Rightarrow> real list list \<Rightarrow> val list list \<Rightarrow> string \<Rightarrow> bool list list option \<Rightarrow>
   nat \<Rightarrow> nat \<Rightarrow> real \<Rightarrow> nat \<Rightarrow> nat \<Rightarrow> string option \<Rightarrow> bool \<Rightarrow> real list list list run" where
  "features_selection_torch_model ext X Y task_name ignore_mask max_epochs batch_size
     learning_rate num_cross_val_folds num_hidden_layer_features checkpoint_path only_train =
     (let ignore_mask = map_option astype_float32 ignore_mask;
          train_val_dataset = TrainValData X Y ignore_mask;
          test_data = TestData X
      in
      then_run (lift (attribution_task ext task_name)) (\<lambda>(final_activation, loss_function).
      let train_loader = \<lparr>loaded = train_val_dataset, loader_batch_size = batch_size,
                           sampler = None, drop_last = True\<rparr>
      in
      then_run
        (case checkpoint_path of
           None \<Rightarrow>
             then_run (emit Model_constructed) (\<lambda>_.
             then_run (train_torch_model ext
                 \<lparr>num_feat = num_hidden_layer_features, nb_in_feat = shape1 X,
                  nb_out_feat = shape1 Y, loss = loss_function,
                  model_learning_rate = learning_rate, final_activation = final_activation,
                  has_ignore_mask = (task_name = ''detection'')\<rparr>
                 train_loader None None max_epochs) (\<lambda>(trainer, _).
             let test_loader = \<lparr>loaded = test_data, loader_batch_size = batch_size,
                                 sampler = None, drop_last = False\<rparr>
             in
             then_run (lift (Trainer_predict ext trainer test_loader)) (\<lambda>predictions.
             then_run (emit Model_predicted) (\<lambda>_.
             then_run (lift (score_diagnostic ignore_mask predictions Y)) (\<lambda>_.
             ret trainer)))))
         | Some path \<Rightarrow>
             then_run (lift (load_from_checkpoint ext path)) (\<lambda>model.
             then_run (emit Checkpoint_loaded) (\<lambda>_. ret model)))
        (\<lambda>model. explain ext model X)))"

section \<open>The orchestrator: preparing the training data (lines 230--286)\<close>

text \<open>\<^verbatim>\<open>KMeans(n_clusters=10, random_state=45).fit(Y)\<close>: scikit-learn refuses an input with
  NaN and an input with fewer samples than clusters; the labels are the library's.\<close>

definition KMeans_fit :: "'m externals \<Rightarrow> val list list \<Rightarrow> error + nat list" where
  "KMeans_fit ext Y =
     (if list_ex (list_ex (\<lambda>v. v = NaN)) Y then Inl (ValueError ''Input contains NaN'')
      else if length Y < 10 then Inl (ValueError ''n_samples should be >= n_clusters'')
      else KMeans_labels ext Y)"

text \<open>\<^verbatim>\<open>np.logical_not\<close> on a cell.\<close>

fun logical_not :: "val \<Rightarrow> bool" where
  "logical_not (Flag b) = (\<not> b)"
| "logical_not (Num x) = (x = 0)"
| "logical_not NaN = False"

text \<open>Lines 275--286: the target and the ignore mask of each task.\<close>

definition task_targets ::
  "string \<Rightarrow> val frame \<Rightarrow> val frame \<Rightarrow> bool frame \<Rightarrow> error + val frame \<times> bool list list option" where
  "task_targets task_name Y Y_detected Y_is_na =
     (if task_name = ''ranking'' then Inr (assign_where Y_is_na (Num (- 1)) Y, None)
      else if task_name = ''detection'' then Inr (Y_detected, Some (to_numpy Y_is_na))
      else if task_name = ''regression'' then
        Inr (Y, Some (map (map logical_not) (to_numpy Y_detected)))
      else Inl (ValueError []))"

record prepared =
  prep_X :: "real list list"
  prep_Y :: "val frame"
  prep_Y_detected :: "val frame"
  prep_Y_is_na :: "bool frame"
  prep_clustering :: "nat list"
  prep_ignore_mask :: "bool list list option"

text \<open>Line 235.\<close>

definition index_cols :: "bool \<Rightarrow> string list" where
  "index_cols use_adduct_features =
     (if use_adduct_features then [''name_short'', ''adduct''] else [''name_short''])"

text \<open>Lines 236--251: the three wide frames.\<close>

definition reshape_observations ::
  "observation list \<Rightarrow> string \<Rightarrow> bool \<Rightarrow> error + val frame \<times> val frame \<times> bool frame" where
  "reshape_observations intensities_df task_name use_adduct_features =
     (let ic = index_cols use_adduct_features in
      then_err (pivot ic (\<lambda>ob. Num (intensity ob)) intensities_df) (\<lambda>Y.
      then_err (pivot ic (\<lambda>ob. Flag (detected ob)) intensities_df) (\<lambda>Y_detected.
      let Y_is_na = isna Y_detected;
          Y_detected = assign_where Y_is_na (Flag False) Y_detected;
          detected_ion_mask = (\<lambda>r. row_sum Y_detected r > 0);
          Y = (if task_name = ''ranking'' then select_rows detected_ion_mask Y else Y);
          Y_detected =
            (if task_name = ''ranking'' then select_rows detected_ion_mask Y_detected
             else Y_detected);
          Y_is_na =
            (if task_name = ''ranking'' then select_rows detected_ion_mask Y_is_na
             else Y_is_na);
          Y = assign_where (frame_eq_False Y_detected) (Num 0) Y
      in Inr (Y, Y_detected, Y_is_na))))"

text \<open>Lines 230--286: everything the orchestrator does before it dispatches to a driver,
  in the order of the source: the assertion on the training stack, the frames, the
  feature matrix, the stratification labels, the target of the task.\<close>

definition prepare_training_data ::
  "'m externals \<Rightarrow> observation list \<Rightarrow> features_table \<Rightarrow> (string \<times> real list) list \<Rightarrow>
   string \<Rightarrow> bool \<Rightarrow> error + prepared" where
  "prepare_training_data ext intensities_df features_df adducts_one_hot task_name
     use_adduct_features =
     (if \<not> torch ext then Inl AssertionError
      else
        then_err (reshape_observations intensities_df task_name use_adduct_features)
          (\<lambda>(Y, Y_detected, Y_is_na).
        then_err (build_X features_df adducts_one_hot use_adduct_features (index Y)) (\<lambda>X.
        then_err (KMeans_fit ext (to_numpy Y)) (\<lambda>out_clustering.
        then_err (task_targets task_name Y Y_detected Y_is_na) (\<lambda>(Y, ignore_mask).
        Inr \<lparr>prep_X = X, prep_Y = Y, prep_Y_detected = Y_detected, prep_Y_is_na = Y_is_na,
             prep_clustering = out_clustering, prep_ignore_mask = ignore_mask\<rparr>)))))"

section \<open>The orchestrator: reshaping the results (lines 306--325)\<close>

text \<open>A row of the long-form table after \<^verbatim>\<open>reset_index\<close>: \<open>res_key\<close> holds the former index
  levels (the levels of Y's row index, then matrix and polarity).\<close>

record result_row =
  res_key :: "string list"
  observed_value :: val
  prediction :: real
  res_fold :: nat
  model_type :: string

text \<open>\<^verbatim>\<open>Y.stack([0, 1])\<close>: one entry per row and column, without the NaN cells.\<close>

definition stack :: "val frame \<Rightarrow> (string list \<times> val) list" where
  "stack fr =
     filter (\<lambda>kv. snd kv \<noteq> NaN)
       (concat (map (\<lambda>r. map (\<lambda>c. (r @ [fst c, snd c], cell fr r c)) (columns fr)) (index fr)))"

text \<open>\<^verbatim>\<open>pd.DataFrame(array, index=idx, columns=cols).stack([0, 1])\<close>: the array must have
  the shape of the two axes.\<close>

definition stack_array ::
  "string list list \<Rightarrow> (string \<times> string) list \<Rightarrow> 'a list list \<Rightarrow> error + (string list \<times> 'a) list" where
  "stack_array idx cols arr =
     (if length arr \<noteq> length idx \<or> list_ex (\<lambda>p. length p \<noteq> length cols) arr
      then Inl (ValueError ''Shape of passed values'')
      else Inr (concat (map (\<lambda>(r, p). map (\<lambda>(c, v). (r @ [fst c, snd c], v)) (zip cols p))
                            (zip idx arr))))"

text \<open>\<^verbatim>\<open>left.join(right, how="inner")\<close> on the index.\<close>

definition join_inner :: "('k \<times> 'a) list \<Rightarrow> ('k \<times> 'b) list \<Rightarrow> ('k \<times> 'a \<times> 'b) list" where
  "join_inner left right =
     concat (map (\<lambda>(k, a). map (\<lambda>kb. (k, a, snd kb)) (filter (\<lambda>kb. fst kb = k) right)) left)"

text \<open>
  Lines 306--325.  The wide results, sorted by row number, are re-keyed position by
  position onto Y's index.  The fold of each long-form row is looked up in the wide
  results under the pair of the first two index levels of the long-form row; a label
  of the wide results is the list of its level values, so a pair is found only among
  labels of two levels.
\<close>

definition reshape_results :: "val frame \<Rightarrow> cv_row list \<Rightarrow> error + result_row list" where
  "reshape_results Y out =
     (let matrix_multi_index = columns Y;
          training_results = sort_key row_index out
      in
      then_err (with_index (index Y) training_results) (\<lambda>training_results.
      let reshaped_gt = stack Y in
      then_err (stack_array (index Y) matrix_multi_index (map row_predictions training_results))
        (\<lambda>reshaped_prediction.
      let reshaped_out = join_inner reshaped_gt reshaped_prediction in
      then_err (get_level_values 0 (map fst reshaped_out)) (\<lambda>level0.
      then_err (get_level_values 1 (map fst reshaped_out)) (\<lambda>level1.
      then_err (loc_rows (zip (index Y) (map fold_id training_results))
                  (map (\<lambda>(a, b). [a, b]) (zip level0 level1))) (\<lambda>folds.
      if length folds \<noteq> length reshaped_out
      then Inl (ValueError ''Length of values does not match length of index'')
      else Inr (map (\<lambda>((k, obs, pred), f).
                      \<lparr>res_key = k, observed_value = obs, prediction = pred, res_fold = f,
                       model_type = ''NN''\<rparr>)
                    (zip reshaped_out folds))))))))"

section \<open>The orchestrator: the feature-importance table (lines 341--362)\<close>

record importance_row =
  feature_name :: string
  mean_abs_shap :: val
  imp_matrix :: string
  imp_polarity :: string

text \<open>Lines 341--343.\<close>

definition feature_names :: "features_table \<Rightarrow> bool \<Rightarrow> string list option \<Rightarrow> error + string list" where
  "feature_names features_df use_adduct_features adducts_columns =
     (let feat_names = feat_columns features_df in
      if use_adduct_features then
        (case adducts_columns of
           None \<Rightarrow> Inl AttributeError
         | Some cols \<Rightarrow> Inr (cols @ feat_names))
      else Inr feat_names)"

text \<open>\<^verbatim>\<open>np.mean(np.abs(a), axis=0)\<close> of an array with \<open>ncols\<close> columns: one mean per
  column, NaN when the array has no row.\<close>

definition mean_abs :: "real list list \<Rightarrow> nat \<Rightarrow> val list" where
  "mean_abs a ncols =
     map (\<lambda>j. if a = [] then NaN
              else Num (sum_list (map (\<lambda>row. \<bar>row ! j\<bar>) a) / real (length a)))
         [0..<ncols]"

text \<open>Lines 353 and 355: \<^verbatim>\<open>shap_values[i][~ignore_mask[:, i]]\<close>, then the column means of
  the absolute values.\<close>

definition loc_mean_abs :: "real list list list \<Rightarrow> bool list list \<Rightarrow> nat \<Rightarrow> val list" where
  "loc_mean_abs attributions ignore_mask i =
     (let loc_shap_values =
            map fst (filter (\<lambda>ri. \<not> snd ri)
                       (zip (attributions ! i) (map (\<lambda>row. row ! i) ignore_mask)))
      in mean_abs loc_shap_values (shape1 (attributions ! i)))"

text \<open>The loop of lines 352--360 over the enumerated columns of Y; \<open>i\<close> is the number of
  the first column of the list.  Indexing raises when the list of attribution arrays
  or the mask has no entry \<open>i\<close>, or when the mask and the array differ in their number
  of rows; the data frame needs as many names as means.\<close>

fun importance_frames ::
  "real list list list \<Rightarrow> bool list list \<Rightarrow> string list \<Rightarrow> nat \<Rightarrow> (string \<times> string) list \<Rightarrow>
   importance_row list \<Rightarrow> error + importance_row list" where
  "importance_frames attributions ignore_mask feat_names i [] df_feat_importance =
     Inr df_feat_importance"
| "importance_frames attributions ignore_mask feat_names i ((mat, pol) # rest) df_feat_importance =
     (if length attributions \<le> i then Inl IndexError
      else if list_ex (\<lambda>row. length row \<le> i) ignore_mask then Inl IndexError
      else if length ignore_mask \<noteq> length (attributions ! i) then Inl IndexError
      else
        (let means = loc_mean_abs attributions ignore_mask i in
         if length means \<noteq> length feat_names
         then Inl (ValueError ''All arrays must be of the same length'')
         else
           importance_frames attributions ignore_mask feat_names (Suc i) rest
             (df_feat_importance @
              map (\<lambda>(v, n). \<lparr>feature_name = n, mean_abs_shap = v, imp_matrix = mat,
                             imp_polarity = pol\<rparr>)
                  (zip means feat_names))))"

text \<open>\<^verbatim>\<open>sort_values("mean_abs_shap", ascending=False)\<close>: larger values first, NaN last.\<close>

fun descending_key :: "val \<Rightarrow> nat \<times> real" where
  "descending_key NaN = (1, 0)"
| "descending_key (Num x) = (0, - x)"
| "descending_key (Flag b) = (0, - (if b then 1 else 0))"

text \<open>Lines 345--362; \<^verbatim>\<open>ignore_mask.astype("bool")\<close> needs an array.\<close>

definition feature_importance_table ::
  "(string \<times> string) list \<Rightarrow> bool list list option \<Rightarrow> real list list list \<Rightarrow> string list \<Rightarrow>
   error + importance_row list" where
  "feature_importance_table matrix_multi_index ignore_mask attributions feat_names =
     then_err (case ignore_mask of None \<Rightarrow> Inl AttributeError | Some m \<Rightarrow> Inr m) (\<lambda>ignore_mask.
     then_err (importance_frames attributions ignore_mask feat_names 0 matrix_multi_index [])
       (\<lambda>df_feat_importance.
     Inr (sort_key (\<lambda>row. descending_key (mean_abs_shap row)) df_feat_importance)))"

section \<open>The orchestrator as a whole (lines 218--362)\<close>

datatype outcome = Long_form "result_row list" | Feature_importance "importance_row list"

definition train_pytorch_model_on_intensities ::
  "'m externals \<Rightarrow> observation list \<Rightarrow> features_table \<Rightarrow> (string \<times> real list) list \<Rightarrow> string \<Rightarrow>
   bool \<Rightarrow> string option \<Rightarrow> nat \<Rightarrow> string option \<Rightarrow> bool \<Rightarrow> string list option \<Rightarrow> outcome run" where
  "train_pytorch_model_on_intensities ext intensities_df features_df adducts_one_hot task_name
     do_feature_selection path_feature_importance_csv num_cross_val_folds checkpoint_path
     use_adduct_features adducts_columns =
     then_run (lift (prepare_training_data ext intensities_df features_df adducts_one_hot
                       task_name use_adduct_features)) (\<lambda>p.
     if \<not> do_feature_selection then
       then_run (train_torch_model_cross_val_loop ext (prep_X p) (to_numpy (prep_Y p)) task_name
                   (prep_clustering p) (prep_ignore_mask p) 20 8 0.01 num_cross_val_folds 32)
         (\<lambda>out.
       then_run (lift (reshape_results (prep_Y p) out)) (\<lambda>reshaped_out.
       ret (Long_form reshaped_out)))
     else
       then_run (features_selection_torch_model ext (prep_X p) (to_numpy (prep_Y p)) task_name
                   (prep_ignore_mask p) 100 8 0.01 num_cross_val_folds 128 checkpoint_path False)
         (\<lambda>attributions.
       then_run (lift (feature_names features_df use_adduct_features adducts_columns))
         (\<lambda>feat_names.
       then_run (lift (feature_importance_table (columns (prep_Y p)) (prep_ignore_mask p)
                         attributions feat_names)) (\<lambda>df_feat_importance.
       ret (Feature_importance df_feat_importance)))))"

section \<open>Notions used in the statements\<close>

text \<open>The detection matrix of the specification: an observation exists for the cell and
  it was marked detected.\<close>

definition detected_at ::
  "string list \<Rightarrow> observation list \<Rightarrow> string list \<Rightarrow> string \<times> string \<Rightarrow> bool" where
  "detected_at ic df r c =
     (case lookup_obs ic df r c of None \<Rightarrow> False | Some ob \<Rightarrow> detected ob)"

text \<open>The rows that the loop of lines 352--360 adds for the column number and column
  \<open>qc\<close>.\<close>

definition importance_block ::
  "real list list list \<Rightarrow> bool list list \<Rightarrow> string list \<Rightarrow> nat \<times> (string \<times> string) \<Rightarrow> importance_row list" where
  "importance_block attributions ignore_mask feat_names qc =
     map (\<lambda>(v, n). \<lparr>feature_name = n, mean_abs_shap = v, imp_matrix = fst (snd qc),
                    imp_polarity = snd (snd qc)\<rparr>)
         (zip (loc_mean_abs attributions ignore_mask (fst qc)) feat_names)"

section \<open>A concrete input\<close>

text \<open>
  Ten molecules, each detected with intensity 5 in matrix DHB; the first one is also
  observed in matrix DAN, not detected there, with intensity 3.  The external
  components are stand-ins: the splitter deals the rows out to the folds in turn, the
  clustering puts every row in class 0, the ranking loss counts the entries of its
  arguments, a fitted model is its own description and predicts 0 everywhere, the
  attribution values are all 1.
\<close>

definition obs_row :: "string \<Rightarrow> string \<Rightarrow> string \<Rightarrow> real \<Rightarrow> bool \<Rightarrow> observation" where
  "obs_row n a m x d =
     \<lparr>name_short = n, adduct = a, matrix = m, polarity = ''pos'', intensity = x, detected = d\<rparr>"

definition toy_names :: "string list" where
  "toy_names = [''m0'', ''m1'', ''m2'', ''m3'', ''m4'', ''m5'', ''m6'', ''m7'', ''m8'', ''m9'']"

definition toy_intensities :: "observation list" where
  "toy_intensities =
     obs_row ''m0'' ''H'' ''DAN'' 3 False # map (\<lambda>n. obs_row n ''H'' ''DHB'' 5 True) toy_names"

definition toy_features :: features_table where
  "toy_features = \<lparr>feat_columns = [''f0''], feat_rows = map (\<lambda>n. (n, [1])) toy_names\<rparr>"


definition sampled :: "loader \<Rightarrow> nat list" where
  "sampled l = (case sampler l of None \<Rightarrow> [0..<length (data_X (loaded l))] | Some rows \<Rightarrow> rows)"

definition toy_externals :: "model_spec externals" where
  "toy_externals =
     \<lparr>torch = True,
      neuralNDCG = Some (\<lambda>pred gt kwargs. Inr (real (length pred + length gt + length kwargs))),
      StratifiedKFold_split =
        (\<lambda>k n labels. Inr (map (\<lambda>f. (filter (\<lambda>i. i mod k \<noteq> f) [0..<n],
                                       filter (\<lambda>i. i mod k = f) [0..<n])) [0..<k])),
      KMeans_labels = (\<lambda>Y. Inr (map (\<lambda>_. 0) Y)),
      Trainer_fit = (\<lambda>model train_loader val_loader max_epochs. Inr model),
      Trainer_predict =
        (\<lambda>model l. Inr [(map (\<lambda>i. replicate (nb_out_feat model) 0) (sampled l), sampled l)]),
      load_from_checkpoint = (\<lambda>path. Inl KeyError),
      random_choice = (\<lambda>n k. [0..<k]),
      shap_values = (\<lambda>model background X. Inr (replicate (nb_out_feat model) (map (map (\<lambda>_. 1)) X)))\<rparr>"

text \<open>Four rows for the cross-validation driver, and the two folds into which the
  stand-in splitter deals them.\<close>

definition toy_rows :: "real list list" where
  "toy_rows = [[1], [2], [3], [4]]"

definition toy_splits :: "(nat list \<times> nat list) list" where
  "toy_splits = [([1, 3], [0, 2]), ([0, 2], [1, 3])]"

text \<open>Attribution values for two output dimensions and five features, from one row of
  X; and a molecule with one feature and one adduct column, for the order of the names.\<close>

definition toy_columns :: "(string \<times> string) list" where
  "toy_columns = [(''DAN'', ''pos''), (''DHB'', ''pos'')]"

definition toy_feat_names :: "string list" where
  "toy_feat_names = [''f1'', ''f2'', ''f3'', ''f4'', ''f5'']"

definition toy_attributions :: "real list list list" where
  "toy_attributions = [[[1, - 2, 3, - 4, 5]], [[5, 4, 3, 2, 1]]]"

definition toy_mass :: features_table where
  "toy_mass = \<lparr>feat_columns = [''mass''], feat_rows = [(''m0'', [7])]\<rparr>"

section \<open>Basic facts about the model\<close>

lemma then_err_Inr:
  "then_err r f = Inr y \<longleftrightarrow> (\<exists>x. r = Inr x \<and> f x = Inr y)"
  by (cases r) (simp_all add: then_err_def)

lemma then_err_simps:
  "then_err (Inl e) f = Inl e" "then_err (Inr x) f = f x"
  by (simp_all add: then_err_def)

lemma frame_op_simps:
  "index (isna fr) = index fr" "columns (isna fr) = columns fr"
  "cell (isna fr) r c = (cell fr r c = NaN)"
  "index (assign_where m v fr) = index fr" "columns (assign_where m v fr) = columns fr"
  "cell (assign_where m v fr) r c = (if cell m r c then v else cell fr r c)"
  "index (frame_eq_False fr) = index fr" "columns (frame_eq_False fr) = columns fr"
  "cell (frame_eq_False fr) r c = eq_False (cell fr r c)"
  "index (select_rows P g) = filter P (index g)" "columns (select_rows P g) = columns g"
  "cell (select_rows P g) = cell g"
  by (simp_all add: isna_def assign_where_def frame_eq_False_def select_rows_def)

lemma pivot_Inr:
  assumes "pivot ic f df = Inr fr"
  shows "distinct (map (\<lambda>ob. (row_key ic ob, col_key ob)) df)"
    and "index fr = sort (remdups (map (row_key ic) df))"
    and "columns fr = unique (map col_key df)"
    and "cell fr r c = (case lookup_obs ic df r c of None \<Rightarrow> NaN | Some ob \<Rightarrow> f ob)"
  using assms by (auto simp: pivot_def Let_def comp_def split: if_splits)

lemma set_unique: "set (unique xs) = set xs"
  by (simp add: unique_def)

lemma distinct_unique: "distinct (unique xs)"
  by (simp add: unique_def)

lemma sum_list_flags_pos:
  fixes g :: "'a \<Rightarrow> bool"
  shows "(0 < (\<Sum>c\<leftarrow>cs. if g c then (1::real) else 0)) \<longleftrightarrow> (\<exists>c\<in>set cs. g c)"
proof (induction cs)
  case Nil
  show ?case by simp
next
  case (Cons a cs)
  have nonneg: "0 \<le> (\<Sum>c\<leftarrow>cs. if g c then (1::real) else 0)"
    by (rule sum_list_nonneg) auto
  show ?case using Cons nonneg by auto
qed

lemma lookup_obs_Some:
  assumes "lookup_obs ic df r c = Some ob"
  shows "ob \<in> set df" "row_key ic ob = r" "col_key ob = c"
  using assms unfolding lookup_obs_def by (auto simp: find_Some_iff)

lemma lookup_obs_None:
  "lookup_obs ic df r c = None \<longleftrightarrow> (\<forall>ob\<in>set df. \<not> (row_key ic ob = r \<and> col_key ob = c))"
  unfolding lookup_obs_def by (auto simp: find_None_iff)

lemma lookup_obs_member:
  assumes "ob \<in> set df"
  shows "\<exists>ob'. lookup_obs ic df (row_key ic ob) (col_key ob) = Some ob'"
  using assms lookup_obs_None[of ic df "row_key ic ob" "col_key ob"]
  by (cases "lookup_obs ic df (row_key ic ob) (col_key ob)") auto

lemma lookup_obs_distinct:
  assumes "distinct (map (\<lambda>ob. (row_key ic ob, col_key ob)) df)" "ob \<in> set df"
  shows "lookup_obs ic df (row_key ic ob) (col_key ob) = Some ob"
proof -
  obtain ob' where ob': "lookup_obs ic df (row_key ic ob) (col_key ob) = Some ob'"
    using lookup_obs_member[OF assms(2)] by blast
  have "ob' \<in> set df" "row_key ic ob' = row_key ic ob" "col_key ob' = col_key ob"
    using lookup_obs_Some[OF ob'] by auto
  moreover have "inj_on (\<lambda>ob. (row_key ic ob, col_key ob)) (set df)"
    using assms(1) by (simp add: distinct_map)
  ultimately have "ob' = ob"
    using assms(2) by (auto dest: inj_onD)
  with ob' show ?thesis by simp
qed


lemma reshape_observations_Inr:
  assumes "reshape_observations df task ua = Inr (Y, Yd, Yna)"
  defines "ic \<equiv> index_cols ua"
  defines "cols \<equiv> unique (map col_key df)"
  defines "rows \<equiv> sort (remdups (map (row_key ic) df))"
  defines "idx \<equiv> (if task = ''ranking'' then filter (\<lambda>r. \<exists>c\<in>set cols. detected_at ic df r c) rows else rows)"
  shows "distinct (map (\<lambda>ob. (row_key ic ob, col_key ob)) df)"
    and "columns Y = cols" and "index Y = idx"
    and "columns Yd = cols" and "index Yd = idx"
    and "columns Yna = cols" and "index Yna = idx"
    and "cell Yna r c = (lookup_obs ic df r c = None)"
    and "cell Yd r c = Flag (detected_at ic df r c)"
    and "cell Y r c = (case lookup_obs ic df r c of None \<Rightarrow> Num 0
                       | Some ob \<Rightarrow> if detected ob then Num (intensity ob) else Num 0)"
proof -
  from assms(1) obtain Y0 Yd0 where
    Y0: "pivot ic (\<lambda>ob. Num (intensity ob)) df = Inr Y0" and
    Yd0: "pivot ic (\<lambda>ob. Flag (detected ob)) df = Inr Yd0" and
    rest: "Y = assign_where (frame_eq_False Yd) (Num 0)
                 (if task = ''ranking''
                  then select_rows (\<lambda>r. row_sum (assign_where (isna Yd0) (Flag False) Yd0) r > 0) Y0
                  else Y0)"
      "Yd = (if task = ''ranking''
             then select_rows (\<lambda>r. row_sum (assign_where (isna Yd0) (Flag False) Yd0) r > 0)
                    (assign_where (isna Yd0) (Flag False) Yd0)
             else assign_where (isna Yd0) (Flag False) Yd0)"
      "Yna = (if task = ''ranking''
             then select_rows (\<lambda>r. row_sum (assign_where (isna Yd0) (Flag False) Yd0) r > 0)
                    (isna Yd0)
             else isna Yd0)"
    unfolding reshape_observations_def ic_def Let_def then_err_Inr by auto
  note pY = pivot_Inr[OF Y0] and pYd = pivot_Inr[OF Yd0]
  have cellD: "cell (assign_where (isna Yd0) (Flag False) Yd0) r' c' = Flag (detected_at ic df r' c')" for r' c'
    by (simp add: frame_op_simps pYd(4) detected_at_def split: option.splits)
  have mask: "(row_sum (assign_where (isna Yd0) (Flag False) Yd0) r' > 0) \<longleftrightarrow> (\<exists>c\<in>set cols. detected_at ic df r' c)" for r'
    unfolding row_sum_def cellD
    by (simp add: frame_op_simps pYd(3) cols_def sum_list_flags_pos del: set_sort set_remdups)
  show "distinct (map (\<lambda>ob. (row_key ic ob, col_key ob)) df)" by (rule pY(1))
  show "columns Y = cols" "columns Yd = cols" "columns Yna = cols"
    by (simp_all add: rest frame_op_simps pY pYd cols_def)
  show "index Y = idx" "index Yd = idx" "index Yna = idx"
    by (simp_all add: rest frame_op_simps pY pYd idx_def rows_def mask)
  show "cell Yna r c = (lookup_obs ic df r c = None)"
    by (simp add: rest frame_op_simps pYd(4) split: option.splits)
  show Yd_cell: "cell Yd r c = Flag (detected_at ic df r c)"
    using cellD by (simp add: rest frame_op_simps)
  show "cell Y r c = (case lookup_obs ic df r c of None \<Rightarrow> Num 0
                       | Some ob \<Rightarrow> if detected ob then Num (intensity ob) else Num 0)"
    by (simp add: rest(1) frame_op_simps Yd_cell pY(4) detected_at_def split: option.splits)
qed


lemma detected_row_iff:
  assumes "distinct (map (\<lambda>ob. (row_key ic ob, col_key ob)) df)"
  shows "(\<exists>c\<in>set (unique (map col_key df)). detected_at ic df r c) \<longleftrightarrow>
         (\<exists>ob\<in>set df. row_key ic ob = r \<and> detected ob)"
proof
  assume "\<exists>c\<in>set (unique (map col_key df)). detected_at ic df r c"
  then obtain c where "detected_at ic df r c" by blast
  then obtain ob where "lookup_obs ic df r c = Some ob" "detected ob"
    by (auto simp: detected_at_def split: option.splits)
  then show "\<exists>ob\<in>set df. row_key ic ob = r \<and> detected ob"
    using lookup_obs_Some by blast
next
  assume "\<exists>ob\<in>set df. row_key ic ob = r \<and> detected ob"
  then obtain ob where ob: "ob \<in> set df" "row_key ic ob = r" "detected ob" by blast
  have "lookup_obs ic df r (col_key ob) = Some ob"
    using lookup_obs_distinct[OF assms ob(1)] ob(2) by simp
  then have "detected_at ic df r (col_key ob)"
    using ob(3) by (simp add: detected_at_def)
  moreover have "col_key ob \<in> set (unique (map col_key df))"
    using ob(1) by (simp add: set_unique)
  ultimately show "\<exists>c\<in>set (unique (map col_key df)). detected_at ic df r c" by blast
qed

lemma prepare_Inr:
  assumes "prepare_training_data ext df fdf aoh task ua = Inr p"
  obtains Y Yd Yna X cl Yf im where
    "torch ext"
    "reshape_observations df task ua = Inr (Y, Yd, Yna)"
    "build_X fdf aoh ua (index Y) = Inr X"
    "KMeans_fit ext (to_numpy Y) = Inr cl"
    "task_targets task Y Yd Yna = Inr (Yf, im)"
    "p = \<lparr>prep_X = X, prep_Y = Yf, prep_Y_detected = Yd, prep_Y_is_na = Yna,
          prep_clustering = cl, prep_ignore_mask = im\<rparr>"
  using assms unfolding prepare_training_data_def
  by (auto simp: then_err_Inr split: if_splits prod.splits)

section \<open>C1: the target of the ranking task\<close>

lemma ranking_cells:
  assumes "prepare_training_data ext df fdf aoh ''ranking'' ua = Inr p"
  shows "cell (prep_Y p) r c =
      (case lookup_obs (index_cols ua) df r c of
         None \<Rightarrow> Num (- 1)
       | Some ob \<Rightarrow> if detected ob then Num (intensity ob) else Num 0)"
proof -
  from assms obtain Y Yd Yna X cl Yf im where
    r: "reshape_observations df ''ranking'' ua = Inr (Y, Yd, Yna)" and
    t: "task_targets ''ranking'' Y Yd Yna = Inr (Yf, im)" and
    p: "p = \<lparr>prep_X = X, prep_Y = Yf, prep_Y_detected = Yd, prep_Y_is_na = Yna,
          prep_clustering = cl, prep_ignore_mask = im\<rparr>"
    by (rule prepare_Inr)
  note R = reshape_observations_Inr[OF r]
  from t have Yf: "Yf = assign_where Yna (Num (- 1)) Y"
    by (simp_all add: task_targets_def)
  show ?thesis
    by (simp add: p Yf frame_op_simps R(8) R(10) split: option.splits)
qed

lemma ranking_rows:
  assumes "prepare_training_data ext df fdf aoh ''ranking'' ua = Inr p"
  shows "set (index (prep_Y p)) = {r. \<exists>ob\<in>set df. row_key (index_cols ua) ob = r \<and> detected ob}"
    and "prep_ignore_mask p = None"
proof -
  from assms obtain Y Yd Yna X cl Yf im where
    r: "reshape_observations df ''ranking'' ua = Inr (Y, Yd, Yna)" and
    t: "task_targets ''ranking'' Y Yd Yna = Inr (Yf, im)" and
    p: "p = \<lparr>prep_X = X, prep_Y = Yf, prep_Y_detected = Yd, prep_Y_is_na = Yna,
          prep_clustering = cl, prep_ignore_mask = im\<rparr>"
    by (rule prepare_Inr)
  note R = reshape_observations_Inr[OF r]
  from t have Yf: "Yf = assign_where Yna (Num (- 1)) Y" and im: "im = None"
    by (simp_all add: task_targets_def)
  have "set (index (prep_Y p)) =
          {r \<in> set (map (row_key (index_cols ua)) df).
             \<exists>c\<in>set (unique (map col_key df)). detected_at (index_cols ua) df r c}"
    by (simp add: p Yf frame_op_simps R(3) del: set_map)
  also have "\<dots> = {r. \<exists>ob\<in>set df. row_key (index_cols ua) ob = r \<and> detected ob}"
    unfolding detected_row_iff[OF R(1)] by auto
  finally show "set (index (prep_Y p)) =
      {r. \<exists>ob\<in>set df. row_key (index_cols ua) ob = r \<and> detected ob}" .
  show "prep_ignore_mask p = None" by (simp add: p im)
qed

lemma Inr_of_not_isl:
  assumes "\<not> isl r"
  obtains x where "r = Inr x"
  using assms by (cases r) auto

lemma prepare_ranking_toy:
  "\<not> isl (prepare_training_data toy_externals toy_intensities toy_features [] ''ranking'' False)"
  by code_simp

lemma prepare_detection_toy:
  "\<not> isl (prepare_training_data toy_externals toy_intensities toy_features [] ''detection'' False)"
  by code_simp

lemma prepare_regression_toy:
  "\<not> isl (prepare_training_data toy_externals toy_intensities toy_features [] ''regression'' False)"
  by code_simp

lemma lookup_toy:
  "lookup_obs (index_cols False) toy_intensities [''m0''] (''DAN'', ''pos'') = Some (obs_row ''m0'' ''H'' ''DAN'' 3 False)"
  "lookup_obs (index_cols False) toy_intensities [''m0''] (''DHB'', ''pos'') = Some (obs_row ''m0'' ''H'' ''DHB'' 5 True)"
  "lookup_obs (index_cols False) toy_intensities [''m1''] (''DAN'', ''pos'') = None"
  by (simp_all add: lookup_obs_def toy_intensities_def toy_names_def obs_row_def row_key_def col_key_def
        index_cols_def obs_column_def)


text \<open>
  C1.  The claim: for the task "ranking" the target matrix holds no zero in the row of
  an entity with at least one detection; the comment of line 277 says as much of the
  code (not-detected intensities are masked to -1).  Line 278 overwrites only the cells
  without observation, so the code does otherwise at a cell that was observed but not
  detected.  In the concrete input the preparation succeeds, molecule m0 is detected
  in DHB (its cell holds the intensity 5), so its row survives, and its cell for DAN,
  observed but not detected, holds 0.
\<close>

theorem ranking_target_zero_at_not_detected:
  "\<not> isl (prepare_training_data toy_externals toy_intensities toy_features [] ''ranking'' False)
   \<and> [''m0''] \<in> set (index (prep_Y (projr
        (prepare_training_data toy_externals toy_intensities toy_features [] ''ranking'' False))))
   \<and> cell (prep_Y (projr
        (prepare_training_data toy_externals toy_intensities toy_features [] ''ranking'' False)))
        [''m0''] (''DHB'', ''pos'') = Num 5
   \<and> cell (prep_Y (projr
        (prepare_training_data toy_externals toy_intensities toy_features [] ''ranking'' False)))
        [''m0''] (''DAN'', ''pos'') = Num 0"
proof -
  obtain p where
    p: "prepare_training_data toy_externals toy_intensities toy_features [] ''ranking'' False = Inr p"
    using prepare_ranking_toy by (rule Inr_of_not_isl)
  have "obs_row ''m0'' ''H'' ''DHB'' 5 True \<in> set toy_intensities"
    by (simp add: toy_intensities_def toy_names_def)
  then have "[''m0''] \<in> set (index (prep_Y p))"
    unfolding ranking_rows(1)[OF p]
    by (auto simp: obs_row_def row_key_def index_cols_def obs_column_def intro!: bexI)
  then show ?thesis
    using p by (simp add: ranking_cells[OF p] lookup_toy obs_row_def)
qed

section \<open>C2: the target and the ignore mask of the detection task\<close>

text \<open>
  C2.  For the task "detection", whenever the preparation succeeds: the ignore mask is
  the missingness matrix as an array, a cell of which is true exactly when the table
  has no observation for it, and the target matrix is the detection matrix, false
  where the observation is absent.
\<close>

theorem detection_target:
  assumes "prepare_training_data ext df fdf aoh ''detection'' ua = Inr p"
  shows "prep_ignore_mask p = Some (to_numpy (prep_Y_is_na p))
       \<and> index (prep_Y_is_na p) = index (prep_Y p)
       \<and> columns (prep_Y_is_na p) = columns (prep_Y p)
       \<and> (\<forall>r c. cell (prep_Y_is_na p) r c \<longleftrightarrow> lookup_obs (index_cols ua) df r c = None)
       \<and> (\<forall>r c. cell (prep_Y p) r c =
             Flag (case lookup_obs (index_cols ua) df r c of
                     None \<Rightarrow> False | Some ob \<Rightarrow> detected ob))"
proof -
  from assms obtain Y Yd Yna X cl Yf im where
    r: "reshape_observations df ''detection'' ua = Inr (Y, Yd, Yna)" and
    t: "task_targets ''detection'' Y Yd Yna = Inr (Yf, im)" and
    p: "p = \<lparr>prep_X = X, prep_Y = Yf, prep_Y_detected = Yd, prep_Y_is_na = Yna,
          prep_clustering = cl, prep_ignore_mask = im\<rparr>"
    by (rule prepare_Inr)
  note R = reshape_observations_Inr[OF r]
  from t have Yf: "Yf = Yd" and im: "im = Some (to_numpy Yna)"
    by (simp_all add: task_targets_def)
  show ?thesis
    by (simp add: p Yf im R(4,5,6,7,8,9) detected_at_def)
qed


theorem detection_target_witness:
  "\<exists>p. prepare_training_data toy_externals toy_intensities toy_features [] ''detection'' False = Inr p
     \<and> prep_ignore_mask p = Some (to_numpy (prep_Y_is_na p))
     \<and> cell (prep_Y_is_na p) [''m1''] (''DAN'', ''pos'')
     \<and> cell (prep_Y p) [''m1''] (''DAN'', ''pos'') = Flag False
     \<and> cell (prep_Y p) [''m0''] (''DHB'', ''pos'') = Flag True"
proof -
  obtain p where
    p: "prepare_training_data toy_externals toy_intensities toy_features [] ''detection'' False = Inr p"
    using prepare_detection_toy by (rule Inr_of_not_isl)
  show ?thesis
    using detection_target[OF p] p by (simp add: lookup_toy obs_row_def)
qed

section \<open>C3: the target and the ignore mask of the regression task\<close>

text \<open>
  C3.  For the task "regression", whenever the preparation succeeds: the ignore mask is
  the cell-wise negation of the detection matrix, and every cell that is not ignored,
  that is, every detected cell, holds the intensity of its observation.
\<close>

theorem regression_target:
  assumes "prepare_training_data ext df fdf aoh ''regression'' ua = Inr p"
  shows "prep_ignore_mask p =
           Some (map (\<lambda>r. map (\<lambda>c. \<not> detected_at (index_cols ua) df r c) (columns (prep_Y p)))
                     (index (prep_Y p)))
       \<and> to_numpy (prep_Y_detected p) =
           map (\<lambda>r. map (\<lambda>c. Flag (detected_at (index_cols ua) df r c)) (columns (prep_Y p)))
               (index (prep_Y p))
       \<and> (\<forall>r c ob. lookup_obs (index_cols ua) df r c = Some ob \<and> detected ob \<longrightarrow>
             cell (prep_Y p) r c = Num (intensity ob))"
proof -
  from assms obtain Y Yd Yna X cl Yf im where
    r: "reshape_observations df ''regression'' ua = Inr (Y, Yd, Yna)" and
    t: "task_targets ''regression'' Y Yd Yna = Inr (Yf, im)" and
    p: "p = \<lparr>prep_X = X, prep_Y = Yf, prep_Y_detected = Yd, prep_Y_is_na = Yna,
          prep_clustering = cl, prep_ignore_mask = im\<rparr>"
    by (rule prepare_Inr)
  note R = reshape_observations_Inr[OF r]
  from t have Yf: "Yf = Y" and im: "im = Some (map (map logical_not) (to_numpy Yd))"
    by (simp_all add: task_targets_def)
  show ?thesis
    by (simp add: p Yf im to_numpy_def R(2,3,4,5,9,10) comp_def)
qed


theorem regression_target_witness:
  "\<exists>p. prepare_training_data toy_externals toy_intensities toy_features [] ''regression'' False = Inr p
     \<and> cell (prep_Y p) [''m0''] (''DHB'', ''pos'') = Num 5"
proof -
  obtain p where
    p: "prepare_training_data toy_externals toy_intensities toy_features [] ''regression'' False = Inr p"
    using prepare_regression_toy by (rule Inr_of_not_isl)
  from regression_target[OF p] have
    "lookup_obs (index_cols False) toy_intensities [''m0''] (''DHB'', ''pos'') = Some ob \<and> detected ob
     \<longrightarrow> cell (prep_Y p) [''m0''] (''DHB'', ''pos'') = Num (intensity ob)" for ob
    by blast
  from this[of "obs_row ''m0'' ''H'' ''DHB'' 5 True"] show ?thesis
    using p by (simp add: lookup_toy obs_row_def)
qed

section \<open>Facts about runs\<close>

lemma then_run_simps:
  "then_run (lift (Inl e)) f = ([], Inl e)"
  "then_run (lift (Inr x)) f = f x"
  "then_run (ret x) f = f x"
  "then_run (emit ev) g = (ev # fst (g ()), snd (g ()))"
  "then_run (es, Inl e) f = (es, Inl e)"
  "then_run (es, Inr x) f = (es @ fst (f x), snd (f x))"
  by (simp_all add: then_run_def lift_def ret_def emit_def)

lemma snd_then_run_Inr:
  "snd (then_run m f) = Inr y \<longleftrightarrow> (\<exists>x. snd m = Inr x \<and> snd (f x) = Inr y)"
  by (cases "snd m") (simp_all add: then_run_def)

lemma isl_then_run:
  "isl (snd (then_run m f)) \<longleftrightarrow> isl (snd m) \<or> (\<exists>x. snd m = Inr x \<and> isl (snd (f x)))"
  by (cases "snd m") (simp_all add: then_run_def)

lemma isl_conv: "isl r \<longleftrightarrow> (\<forall>x. r \<noteq> Inr x)"
  by (cases r) auto

section \<open>C6: the ranking-loss adapter\<close>

text \<open>
  C6.  When the external ranking loss is absent (the module-level name is None), the
  construction of the adapter fails with the assertion error, so no adapter exists that
  could fail at call time; when it is present, the construction succeeds, stores the
  options as given, and every call returns what the external loss returns for the
  prediction, the ground truth and those options.
\<close>

theorem ranking_loss_adapter:
  "(neuralNDCG ext = None \<longrightarrow> NeuralNDCGLoss_init ext kwargs = Inl AssertionError)
   \<and> (\<forall>f. neuralNDCG ext = Some f \<longrightarrow>
        (\<exists>self. NeuralNDCGLoss_init ext kwargs = Inr self
           \<and> loss_kwargs self = kwargs
           \<and> (\<forall>pred gt. NeuralNDCGLoss_call ext self pred gt = f pred gt kwargs)))"
  by (auto simp: NeuralNDCGLoss_init_def NeuralNDCGLoss_call_def)

theorem ranking_loss_adapter_witness:
  "neuralNDCG (toy_externals\<lparr>neuralNDCG := None\<rparr>) = None
   \<and> NeuralNDCGLoss_init (toy_externals\<lparr>neuralNDCG := None\<rparr>) [(''k'', Num 2)] = Inl AssertionError
   \<and> (\<exists>self. NeuralNDCGLoss_init toy_externals [(''k'', Num 2)] = Inr self
         \<and> loss_kwargs self = [(''k'', Num 2)]
         \<and> NeuralNDCGLoss_call toy_externals self [[1], [2]] [[0], [1]] = Inr 5)"
proof -
  have absent: "neuralNDCG (toy_externals\<lparr>neuralNDCG := None\<rparr>) = None"
    by simp
  have present: "neuralNDCG toy_externals
      = Some (\<lambda>pred gt kwargs. Inr (real (length pred + length gt + length kwargs)))"
    by (simp add: toy_externals_def)
  from ranking_loss_adapter[of "toy_externals\<lparr>neuralNDCG := None\<rparr>" "[(''k'', Num 2)]"] absent
  have "NeuralNDCGLoss_init (toy_externals\<lparr>neuralNDCG := None\<rparr>) [(''k'', Num 2)] = Inl AssertionError"
    by blast
  moreover from ranking_loss_adapter[of toy_externals "[(''k'', Num 2)]"] present
  obtain self where "NeuralNDCGLoss_init toy_externals [(''k'', Num 2)] = Inr self"
    "loss_kwargs self = [(''k'', Num 2)]"
    "NeuralNDCGLoss_call toy_externals self [[1], [2]] [[0], [1]] = Inr (real (length [[1::real], [2]] + length [[0::real], [1]] + length [(''k'', Num 2)]))"
    by blast
  ultimately show ?thesis using absent by auto
qed

section \<open>C4: unrecognised task names\<close>












section \<open>C8: the attribution driver without an ignore mask\<close>

lemma attribution_without_mask_fails:
  "isl (snd (features_selection_torch_model ext X Y task None ep bs lr k h None ot))"
  by (auto simp: features_selection_torch_model_def Let_def then_run_def lift_def emit_def ret_def
        train_torch_model_def score_diagnostic_def split: sum.splits prod.splits)

lemma attribution_without_mask_after_training:
  assumes "attribution_task ext task = Inr cfg"
    and "\<forall>model l v e. \<not> isl (Trainer_fit ext model l v e)"
    and "\<forall>m l. \<not> isl (Trainer_predict ext m l)"
  shows "features_selection_torch_model ext X Y task None ep bs lr k h None ot
         = ([Model_constructed, Model_fitted, Model_predicted], Inl AttributeError)"
proof -
  obtain fa lf where cfg: "cfg = (fa, lf)" by (cases cfg)
  let ?model = "\<lparr>num_feat = h, nb_in_feat = shape1 X, nb_out_feat = shape1 Y, loss = lf,
       model_learning_rate = lr, final_activation = fa,
       has_ignore_mask = (task = ''detection'')\<rparr>"
  let ?train = "\<lparr>loaded = TrainValData X Y None, loader_batch_size = bs, sampler = None,
       drop_last = True\<rparr>"
  let ?test = "\<lparr>loaded = TestData X, loader_batch_size = bs, sampler = None, drop_last = False\<rparr>"
  obtain m where m: "Trainer_fit ext ?model ?train None ep = Inr m"
    using assms(2) by (meson Inr_of_not_isl)
  obtain b where b: "Trainer_predict ext m ?test = Inr b"
    using assms(3) by (meson Inr_of_not_isl)
  show ?thesis
    by (simp add: features_selection_torch_model_def Let_def assms(1) cfg then_run_simps
          train_torch_model_def m b score_diagnostic_def ret_def)
qed

lemma ranking_feature_selection_fails:
  "isl (snd (train_pytorch_model_on_intensities ext df fdf aoh ''ranking'' True path k ckpt ua ac))"
proof (cases "prepare_training_data ext df fdf aoh ''ranking'' ua")
  case (Inl e)
  then show ?thesis
    by (simp add: train_pytorch_model_on_intensities_def then_run_simps)
next
  case (Inr p)
  have im: "prep_ignore_mask p = None" using ranking_rows(2)[OF Inr] .
  show ?thesis
    by (auto simp: train_pytorch_model_on_intensities_def Inr then_run_simps snd_then_run_Inr
          isl_conv im feature_importance_table_def then_err_simps lift_def ret_def)
qed


text \<open>
  C8.  Called without an ignore mask and without a checkpoint, the attribution driver
  never returns attribution values; when the task is valid and fitting and predicting
  succeed, the model is constructed, fitted and used for prediction, and then line 199
  raises on the missing mask.  The orchestrator passes no mask for the task "ranking",
  so with feature selection it never returns a table for that task, with or without a
  checkpoint (line 346 needs the mask as well).
\<close>

theorem attribution_needs_ignore_mask:
  "isl (snd (features_selection_torch_model ext X Y task None ep bs lr k h None ot))
   \<and> (\<not> isl (attribution_task ext task)
       \<and> (\<forall>model l v e. \<not> isl (Trainer_fit ext model l v e))
       \<and> (\<forall>m l. \<not> isl (Trainer_predict ext m l)) \<longrightarrow>
       features_selection_torch_model ext X Y task None ep bs lr k h None ot
         = ([Model_constructed, Model_fitted, Model_predicted], Inl AttributeError))
   \<and> isl (snd (train_pytorch_model_on_intensities ext df fdf aoh ''ranking'' True path k ckpt
              ua ac))"
proof -
  have "features_selection_torch_model ext X Y task None ep bs lr k h None ot
         = ([Model_constructed, Model_fitted, Model_predicted], Inl AttributeError)"
    if ok: "\<not> isl (attribution_task ext task)"
      "\<forall>model l v e. \<not> isl (Trainer_fit ext model l v e)"
      "\<forall>m l. \<not> isl (Trainer_predict ext m l)"
  proof -
    obtain cfg where "attribution_task ext task = Inr cfg"
      using ok(1) by (rule Inr_of_not_isl)
    then show ?thesis
      using ok(2,3) by (rule attribution_without_mask_after_training)
  qed
  then show ?thesis
    using attribution_without_mask_fails ranking_feature_selection_fails by blast
qed

theorem attribution_needs_ignore_mask_witness:
  "\<not> isl (attribution_task toy_externals ''ranking'')
   \<and> (\<forall>model l v e. \<not> isl (Trainer_fit toy_externals model l v e))
   \<and> (\<forall>m l. \<not> isl (Trainer_predict toy_externals m l))
   \<and> features_selection_torch_model toy_externals [[1]] [[Num 1]] ''ranking'' None
         100 8 0.01 10 128 None False
       = ([Model_constructed, Model_fitted, Model_predicted], Inl AttributeError)
   \<and> isl (snd (train_pytorch_model_on_intensities toy_externals toy_intensities toy_features []
              ''ranking'' True None 10 None False None))"
proof -
  have h: "\<not> isl (attribution_task toy_externals ''ranking'')"
    "\<forall>model l v e. \<not> isl (Trainer_fit toy_externals model l v e)"
    "\<forall>m l. \<not> isl (Trainer_predict toy_externals m l)"
    by (simp_all add: attribution_task_def NeuralNDCGLoss_init_def toy_externals_def then_err_simps)
  show ?thesis
    using h attribution_needs_ignore_mask[where ext = toy_externals and task = "''ranking''"
        and X = "[[1]]" and Y = "[[Num 1]]" and ep = 100 and bs = 8 and lr = "0.01" and k = 10
        and h = 128 and ot = False and df = toy_intensities and fdf = toy_features
        and aoh = "[]" and path = None and ckpt = None and ua = False and ac = None]
    by simp
qed

section \<open>C5: the rows of the cross-validation table\<close>

lemma concatenate_nonempty:
  "b \<noteq> [] \<Longrightarrow> concatenate (map f b) = Inr (concat (map f b))"
  by (simp add: concatenate_def)

lemma fold_results_Inr:
  assumes "length arr = length ixs"
  shows "\<exists>lc. fold_results arr ixs n = Inr lc \<and> map row_index lc = ixs \<and> (\<forall>row\<in>set lc. fold_id row = n)"
proof -
  let ?lc = "map (\<lambda>(i, p). \<lparr>row_index = i, row_predictions = p, fold_id = n\<rparr>) (zip ixs arr)"
  have "map row_index ?lc = map fst (zip ixs arr)"
    by (simp add: case_prod_unfold comp_def)
  also have "\<dots> = ixs" using assms by simp
  finally have "map row_index ?lc = ixs" .
  moreover have "\<forall>row\<in>set ?lc. fold_id row = n" by auto
  moreover have "fold_results arr ixs n = Inr ?lc" using assms by (simp add: fold_results_def)
  ultimately show ?thesis by blast
qed

lemma cross_val_folds_result:
  assumes fit: "\<forall>model l v e. \<not> isl (Trainer_fit ext model l v e)"
    and pred: "\<forall>m l rows. sampler l = Some rows \<and> rows \<noteq> [] \<longrightarrow>
        (\<exists>b. Trainer_predict ext m l = Inr b \<and> b \<noteq> []
           \<and> mset (concat (map snd b)) = mset rows
           \<and> length (concat (map fst b)) = length (concat (map snd b)))"
    and nonempty: "\<forall>s\<in>set splits. snd s \<noteq> []"
  shows "\<exists>rows. snd (cross_val_folds ext model tvd td bs ep n splits acc) = Inr (acc @ rows)
           \<and> mset (map row_index rows) = mset (concat (map snd splits))
           \<and> (\<forall>row\<in>set rows. n \<le> fold_id row \<and> fold_id row < n + length splits
                  \<and> row_index row \<in> set (snd (splits ! (fold_id row - n))))"
  using nonempty
proof (induction splits arbitrary: n acc)
  case Nil
  show ?case by (simp add: ret_def)
next
  case (Cons s splits)
  obtain train_index test_index where s: "s = (train_index, test_index)" by (cases s)
  have te: "test_index \<noteq> []" using Cons.prems s by simp
  let ?train = "\<lparr>loaded = tvd, loader_batch_size = bs, sampler = Some train_index, drop_last = True\<rparr>"
  let ?val = "\<lparr>loaded = tvd, loader_batch_size = bs, sampler = Some test_index, drop_last = False\<rparr>"
  let ?test = "\<lparr>loaded = td, loader_batch_size = bs, sampler = Some test_index, drop_last = False\<rparr>"
  obtain m where m: "Trainer_fit ext model ?train (Some ?val) ep = Inr m"
    using fit by (meson Inr_of_not_isl)
  have "sampler ?test = Some test_index \<and> test_index \<noteq> []" using te by simp
  with pred obtain b where b: "Trainer_predict ext m ?test = Inr b" "b \<noteq> []"
    "mset (concat (map snd b)) = mset test_index"
    "length (concat (map fst b)) = length (concat (map snd b))"
    by blast
  obtain lc where lc: "fold_results (concat (map fst b)) (concat (map snd b)) n = Inr lc"
    "map row_index lc = concat (map snd b)" "\<forall>row\<in>set lc. fold_id row = n"
    using fold_results_Inr[OF b(4)] by blast
  have step: "snd (cross_val_folds ext model tvd td bs ep n (s # splits) acc)
      = snd (cross_val_folds ext model tvd td bs ep (Suc n) splits (acc @ lc))"
    by (simp add: s Let_def then_run_simps train_torch_model_def m b(1) concatenate_nonempty[OF b(2)]
          lc(1) ret_def)
  have "\<forall>s\<in>set splits. snd s \<noteq> []" using Cons.prems by simp
  from Cons.IH[OF this, of "Suc n" "acc @ lc"] obtain rows where rows:
    "snd (cross_val_folds ext model tvd td bs ep (Suc n) splits (acc @ lc)) = Inr ((acc @ lc) @ rows)"
    "mset (map row_index rows) = mset (concat (map snd splits))"
    "\<forall>row\<in>set rows. Suc n \<le> fold_id row \<and> fold_id row < Suc n + length splits
        \<and> row_index row \<in> set (snd (splits ! (fold_id row - Suc n)))"
    by blast
  have 1: "snd (cross_val_folds ext model tvd td bs ep n (s # splits) acc) = Inr (acc @ (lc @ rows))"
    using step rows(1) by simp
  have 2: "mset (map row_index (lc @ rows)) = mset (concat (map snd (s # splits)))"
    using lc(2) b(3) rows(2) by (simp add: s)
  have in_test: "row_index row \<in> set test_index" if "row \<in> set lc" for row
  proof -
    have "row_index row \<in> set (map row_index lc)" using that by simp
    then have "row_index row \<in> set (concat (map snd b))" by (simp only: lc(2))
    then have "row_index row \<in> set_mset (mset (concat (map snd b)))" by simp
    then show ?thesis by (simp only: b(3) set_mset_mset)
  qed
  have 3: "n \<le> fold_id row \<and> fold_id row < n + length (s # splits)
        \<and> row_index row \<in> set (snd ((s # splits) ! (fold_id row - n)))"
    if "row \<in> set (lc @ rows)" for row
  proof (cases "row \<in> set lc")
    case True
    then show ?thesis using lc(3) in_test by (simp add: s)
  next
    case False
    then have r: "row \<in> set rows" using that by simp
    with rows(3) have f: "Suc n \<le> fold_id row" "fold_id row < Suc n + length splits"
      "row_index row \<in> set (snd (splits ! (fold_id row - Suc n)))" by auto
    have "fold_id row - n = Suc (fold_id row - Suc n)" using f(1) by simp
    then show ?thesis using f by simp
  qed
  show ?case using 1 2 3 by blast
qed


text \<open>
  C5.  Let the task be valid for the cross-validation driver (with the ranking loss
  available for "ranking"), let the test parts of the folds given by the splitter
  partition the row numbers of X (every row number in exactly one fold, no fold empty),
  and let the trainer fit every model and return, for a test loader, batches whose row
  numbers are those of the loader's sampler in some order, one prediction per row
  number.  Then the driver returns a table in which every row number of X occurs exactly
  once, each row tagged with the number of the fold whose test part holds it.
\<close>

theorem cross_validation_covers_rows:
  assumes task: "task = ''ranking'' \<or> task = ''detection''"
    and loss: "task = ''ranking'' \<longrightarrow> neuralNDCG ext \<noteq> None"
    and split: "StratifiedKFold_split ext k (length X) classes = Inr splits"
    and partition: "mset (concat (map snd splits)) = mset [0..<length X]"
    and nonempty: "\<forall>s\<in>set splits. snd s \<noteq> []"
    and fit: "\<forall>model l v e. \<not> isl (Trainer_fit ext model l v e)"
    and pred: "\<forall>m l rows. sampler l = Some rows \<and> rows \<noteq> [] \<longrightarrow>
        (\<exists>b. Trainer_predict ext m l = Inr b \<and> b \<noteq> []
           \<and> mset (concat (map snd b)) = mset rows
           \<and> length (concat (map fst b)) = length (concat (map snd b)))"
  shows "\<exists>all_results.
           snd (train_torch_model_cross_val_loop ext X Y task classes im ep bs lr k h)
             = Inr all_results
         \<and> mset (map row_index all_results) = mset [0..<length X]
         \<and> (\<forall>row\<in>set all_results. fold_id row < length splits
                \<and> row_index row \<in> set (snd (splits ! fold_id row)))"
proof -
  obtain cfg where cfg: "cross_val_task ext task = Inr cfg"
    using task loss
    by (auto simp: cross_val_task_def NeuralNDCGLoss_init_def then_err_simps split: option.splits)
  obtain fa lf where c: "cfg = (fa, lf)" by (cases cfg)
  let ?model = "\<lparr>num_feat = h, nb_in_feat = shape1 X, nb_out_feat = shape1 Y, loss = lf,
       model_learning_rate = lr, final_activation = fa,
       has_ignore_mask = (task = ''detection'')\<rparr>"
  have run: "train_torch_model_cross_val_loop ext X Y task classes im ep bs lr k h
      = cross_val_folds ext ?model (TrainValData X Y (map_option astype_float32 im)) (TestData X)
          bs ep 0 splits []"
    by (simp add: train_torch_model_cross_val_loop_def Let_def cfg c split then_run_simps)
  from cross_val_folds_result[OF fit pred nonempty, of ?model
      "TrainValData X Y (map_option astype_float32 im)" "TestData X" bs ep 0 "[]"]
  obtain rows where rows:
    "snd (cross_val_folds ext ?model (TrainValData X Y (map_option astype_float32 im)) (TestData X)
            bs ep 0 splits []) = Inr rows"
    "mset (map row_index rows) = mset (concat (map snd splits))"
    "\<forall>row\<in>set rows. fold_id row < length splits
        \<and> row_index row \<in> set (snd (splits ! fold_id row))"
    by auto
  show ?thesis
    using rows partition by (auto simp: run)
qed

lemma toy_split:
  "StratifiedKFold_split toy_externals 2 (length toy_rows) [0, 0, 0, 0] = Inr toy_splits"
  by (simp add: toy_externals_def toy_rows_def toy_splits_def upt_rec[of _ "numeral _"]
        upt_rec[of 0])

theorem cross_validation_covers_rows_witness:
  "\<exists>all_results.
     snd (train_torch_model_cross_val_loop toy_externals toy_rows
            [[Flag True], [Flag False], [Flag True], [Flag False]] ''detection'' [0, 0, 0, 0] None
            20 8 0.01 2 32) = Inr all_results
     \<and> mset (map row_index all_results) = mset [0..<length toy_rows]
     \<and> (\<forall>row\<in>set all_results. fold_id row < length toy_splits
           \<and> row_index row \<in> set (snd (toy_splits ! fold_id row)))"
proof -
  have task: "''detection'' = ''ranking'' \<or> ''detection'' = ''detection''"
    and loss: "''detection'' = ''ranking'' \<longrightarrow> neuralNDCG toy_externals \<noteq> None"
    by simp_all
  have fit: "\<forall>model l v e. \<not> isl (Trainer_fit toy_externals model l v e)"
    by (simp add: toy_externals_def)
  have pred: "\<forall>m l rows. sampler l = Some rows \<and> rows \<noteq> [] \<longrightarrow>
        (\<exists>b. Trainer_predict toy_externals m l = Inr b \<and> b \<noteq> []
           \<and> mset (concat (map snd b)) = mset rows
           \<and> length (concat (map fst b)) = length (concat (map snd b)))"
    by (simp add: toy_externals_def sampled_def)
  have partition: "mset (concat (map snd toy_splits)) = mset [0..<length toy_rows]"
  proof -
    have l: "length toy_rows = 4" by (simp add: toy_rows_def)
    have u: "[0..<4] = [0, 1, 2, 3::nat]" by code_simp
    show ?thesis unfolding l u by (simp add: toy_splits_def add_mset_commute)
  qed
  have nonempty: "\<forall>s\<in>set toy_splits. snd s \<noteq> []"
    by (simp add: toy_splits_def)
  show ?thesis
    by (rule cross_validation_covers_rows[OF task loss toy_split partition nonempty fit pred])
qed

section \<open>C7: the feature-importance table\<close>

lemma upt_shift: "[i..<i + Suc n] = i # [Suc i..<Suc i + n]"
  by (simp add: upt_rec[of i])

lemma importance_frames_Inr:
  assumes "importance_frames attr msk names i cols acc = Inr df"
  shows "df = acc @ concat (map (importance_block attr msk names) (zip [i..<i + length cols] cols))
       \<and> (\<forall>q\<in>{i..<i + length cols}. length (loc_mean_abs attr msk q) = length names)"
  using assms
proof (induction cols arbitrary: i acc)
  case Nil
  then show ?case by simp
next
  case (Cons c cols)
  obtain m p where c: "c = (m, p)" by (cases c)
  let ?block = "importance_block attr msk names (i, c)"
  from Cons.prems have len: "length (loc_mean_abs attr msk i) = length names"
    and rec: "importance_frames attr msk names (Suc i) cols (acc @ ?block) = Inr df"
    by (auto simp: c Let_def importance_block_def split: if_splits)
  from Cons.IH[OF rec] have
    df: "df = (acc @ ?block) @ concat (map (importance_block attr msk names)
                  (zip [Suc i..<Suc i + length cols] cols))"
    and lens: "\<forall>q\<in>{Suc i..<Suc i + length cols}. length (loc_mean_abs attr msk q) = length names"
    by simp_all
  have upt: "[i..<i + length (c # cols)] = i # [Suc i..<Suc i + length cols]"
    using upt_shift[of i "length cols"] by simp
  have "\<forall>q\<in>{i..<i + length (c # cols)}. length (loc_mean_abs attr msk q) = length names"
  proof
    fix q assume "q \<in> {i..<i + length (c # cols)}"
    then have "q = i \<or> q \<in> {Suc i..<Suc i + length cols}" by auto
    then show "length (loc_mean_abs attr msk q) = length names"
      using len lens by auto
  qed
  moreover have "df = acc @ concat (map (importance_block attr msk names)
                  (zip [i..<i + length (c # cols)] (c # cols)))"
    unfolding upt using df by simp
  ultimately show ?case by blast
qed

lemma block_keys:
  assumes "length (loc_mean_abs attr msk (fst qc)) = length names"
  shows "map (\<lambda>row. ((imp_matrix row, imp_polarity row), feature_name row))
           (importance_block attr msk names qc) = map (Pair (snd qc)) names"
proof -
  have "map (\<lambda>row. ((imp_matrix row, imp_polarity row), feature_name row))
           (importance_block attr msk names qc)
        = map (\<lambda>vn. (snd qc, snd vn)) (zip (loc_mean_abs attr msk (fst qc)) names)"
    by (simp add: importance_block_def case_prod_unfold comp_def)
  also have "\<dots> = map (Pair (snd qc)) (map snd (zip (loc_mean_abs attr msk (fst qc)) names))"
    by (simp add: comp_def)
  also have "\<dots> = map (Pair (snd qc)) names"
    using assms by simp
  finally show ?thesis .
qed

lemma blocks_keys:
  assumes "\<forall>q\<in>{i..<i + length cols}. length (loc_mean_abs attr msk q) = length names"
  shows "map (\<lambda>row. ((imp_matrix row, imp_polarity row), feature_name row))
           (concat (map (importance_block attr msk names) (zip [i..<i + length cols] cols)))
         = List.product cols names"
  using assms
proof (induction cols arbitrary: i)
  case Nil
  show ?case by simp
next
  case (Cons c cols)
  have upt: "[i..<i + length (c # cols)] = i # [Suc i..<Suc i + length cols]"
    using upt_shift[of i "length cols"] by simp
  have len: "length (loc_mean_abs attr msk (fst (i, c))) = length names"
    using Cons.prems by simp
  have rest: "\<forall>q\<in>{Suc i..<Suc i + length cols}. length (loc_mean_abs attr msk q) = length names"
    using Cons.prems by simp
  show ?case
    unfolding upt using Cons.IH[OF rest] block_keys[OF len] by simp
qed

lemma mean_abs_values:
  assumes "v \<in> set (mean_abs a ncols)"
  shows "v = NaN \<or> (\<exists>x\<ge>0. v = Num x)"
proof (cases "a = []")
  case True
  with assms show ?thesis by (auto simp: mean_abs_def)
next
  case False
  with assms obtain j where v: "v = Num (sum_list (map (\<lambda>row. \<bar>row ! j\<bar>) a) / real (length a))"
    by (auto simp: mean_abs_def)
  have "0 \<le> sum_list (map (\<lambda>row. \<bar>row ! j\<bar>) a) / real (length a)"
    by (intro divide_nonneg_nonneg sum_list_nonneg) auto
  with v show ?thesis by blast
qed

lemma block_values:
  assumes "row \<in> set (importance_block attr msk names qc)"
  shows "mean_abs_shap row = NaN \<or> (\<exists>x\<ge>0. mean_abs_shap row = Num x)"
proof -
  from assms obtain v n where "(v, n) \<in> set (zip (loc_mean_abs attr msk (fst qc)) names)"
    and row: "mean_abs_shap row = v"
    by (auto simp: importance_block_def)
  then have "v \<in> set (loc_mean_abs attr msk (fst qc))" by (meson set_zip_leftD)
  then have "v = NaN \<or> (\<exists>x\<ge>0. v = Num x)"
    unfolding loc_mean_abs_def Let_def by (rule mean_abs_values)
  then show ?thesis by (simp add: row)
qed


lemma descending_key_Num: "descending_key (Num x) \<le> descending_key (Num y) \<longleftrightarrow> y \<le> x"
  by (simp add: less_eq_prod_def)

lemma descending_key_NaN: "descending_key NaN \<le> descending_key v \<longleftrightarrow> v = NaN"
  by (cases v) (simp_all add: less_eq_prod_def)

lemma feature_importance_table_Inr:
  assumes "feature_importance_table cols im attr names = Inr tbl"
  obtains msk df where "im = Some msk"
    "importance_frames attr msk names 0 cols [] = Inr df"
    "tbl = sort_key (\<lambda>row. descending_key (mean_abs_shap row)) df"
  using assms
  by (auto simp: feature_importance_table_def then_err_Inr split: option.splits)

lemma toy_table_ok:
  "\<not> isl (feature_importance_table toy_columns (Some [[False, False]]) toy_attributions
            toy_feat_names)"
  by code_simp

text \<open>
  C7.  Whenever the feature-importance table is built, it has one row per column of Y
  and feature name: its (matrix, polarity, feature name) triples are, up to order, the
  pairs of a column of Y and a feature name, so as many rows as columns times names
  (10 for 2 output dimensions and 5 features), and no triple twice when the columns
  and the names are without repetition (the columns of Y always are: the pivot gives
  each label once).  The rows are in non-increasing order of \<open>mean_abs_shap\<close>; a mean is
  undefined (NaN) when every row of an output dimension is ignored, and such rows come
  last.  A row is labelled by its feature name, the index of the source's table.
\<close>

theorem feature_importance_table_rows:
  assumes "feature_importance_table cols im attr names = Inr tbl"
  shows "length tbl = length cols * length names
       \<and> mset (map (\<lambda>row. ((imp_matrix row, imp_polarity row), feature_name row)) tbl)
           = mset (List.product cols names)
       \<and> (distinct cols \<and> distinct names \<longrightarrow>
            distinct (map (\<lambda>row. ((imp_matrix row, imp_polarity row), feature_name row)) tbl))
       \<and> (\<forall>i j x y. i < j \<and> j < length tbl \<and> mean_abs_shap (tbl ! i) = Num x
              \<and> mean_abs_shap (tbl ! j) = Num y \<longrightarrow> y \<le> x)
       \<and> (\<forall>i j. i < j \<and> j < length tbl \<and> mean_abs_shap (tbl ! i) = NaN \<longrightarrow>
              mean_abs_shap (tbl ! j) = NaN)
       \<and> (\<forall>row\<in>set tbl. mean_abs_shap row = NaN \<or> (\<exists>x\<ge>0. mean_abs_shap row = Num x))"
proof -
  let ?triple = "\<lambda>row. ((imp_matrix row, imp_polarity row), feature_name row)"
  let ?key = "\<lambda>row. descending_key (mean_abs_shap row)"
  from assms obtain msk df where
    frames: "importance_frames attr msk names 0 cols [] = Inr df" and
    tbl: "tbl = sort_key ?key df"
    by (rule feature_importance_table_Inr)
  from importance_frames_Inr[OF frames] have
    df: "df = concat (map (importance_block attr msk names) (zip [0..<length cols] cols))" and
    lens: "\<forall>q\<in>{0..<0 + length cols}. length (loc_mean_abs attr msk q) = length names"
    by simp_all
  have keys: "map ?triple df = List.product cols names"
    using blocks_keys[OF lens] df by simp
  have perm: "mset tbl = mset df" by (simp add: tbl)
  have triples: "mset (map ?triple tbl) = mset (List.product cols names)"
  proof -
    have "mset (map ?triple tbl) = image_mset ?triple (mset tbl)" by simp
    also have "\<dots> = image_mset ?triple (mset df)" by (simp only: perm)
    also have "\<dots> = mset (map ?triple df)" by simp
    finally show ?thesis by (simp only: keys)
  qed
  have len: "length tbl = length cols * length names"
  proof -
    have "length tbl = length (map ?triple df)" by (simp add: tbl)
    then show ?thesis by (simp only: keys length_product)
  qed
  have dist: "distinct (map ?triple tbl)" if "distinct cols \<and> distinct names"
  proof -
    have "distinct (List.product cols names)" using that by (simp add: distinct_product)
    then show ?thesis using triples by (metis mset_eq_imp_distinct_iff)
  qed
  have sorted_keys: "sorted (map ?key tbl)" by (simp add: tbl)
  have mono: "?key (tbl ! i) \<le> ?key (tbl ! j)" if "i < j" "j < length tbl" for i j
    using sorted_nth_mono[OF sorted_keys, of i j] that by simp
  have nums: "y \<le> x" if "i < j \<and> j < length tbl \<and> mean_abs_shap (tbl ! i) = Num x
              \<and> mean_abs_shap (tbl ! j) = Num y" for i j x y
    using mono[of i j] that by (simp add: descending_key_Num)
  have nans: "mean_abs_shap (tbl ! j) = NaN"
    if "i < j \<and> j < length tbl \<and> mean_abs_shap (tbl ! i) = NaN" for i j
  proof -
    from that have "descending_key NaN \<le> descending_key (mean_abs_shap (tbl ! j))"
      using mono[of i j] by metis
    then show ?thesis by (simp only: descending_key_NaN)
  qed
  have vals: "mean_abs_shap row = NaN \<or> (\<exists>x\<ge>0. mean_abs_shap row = Num x)"
    if "row \<in> set tbl" for row
  proof -
    from that have "row \<in> set df" by (simp add: tbl)
    then obtain qc where "row \<in> set (importance_block attr msk names qc)"
      unfolding df by auto
    then show ?thesis by (rule block_values)
  qed
  show ?thesis
    using len triples dist nums nans vals by blast
qed


theorem feature_importance_table_rows_witness:
  "\<exists>tbl. feature_importance_table toy_columns (Some [[False, False]]) toy_attributions
            toy_feat_names = Inr tbl
     \<and> distinct toy_columns \<and> distinct toy_feat_names
     \<and> length tbl = 10
     \<and> distinct (map (\<lambda>row. ((imp_matrix row, imp_polarity row), feature_name row)) tbl)
     \<and> (\<forall>i j x y. i < j \<and> j < length tbl \<and> mean_abs_shap (tbl ! i) = Num x
            \<and> mean_abs_shap (tbl ! j) = Num y \<longrightarrow> y \<le> x)"
proof -
  obtain tbl where tbl: "feature_importance_table toy_columns (Some [[False, False]])
      toy_attributions toy_feat_names = Inr tbl"
    using toy_table_ok by (rule Inr_of_not_isl)
  have d: "distinct toy_columns \<and> distinct toy_feat_names"
    by (simp add: toy_columns_def toy_feat_names_def)
  have l: "length toy_columns * length toy_feat_names = 10"
    by (simp add: toy_columns_def toy_feat_names_def)
  show ?thesis
    using feature_importance_table_rows[OF tbl] tbl d l by auto
qed

section \<open>C9: the order of the feature names\<close>

text \<open>
  C9.  With adduct features, a row of X is the molecule's feature row followed by the
  adduct's one-hot row, while the list of names is the adduct column names followed by
  the feature column names; the rows of the table for an output dimension pair the
  j-th mean (the mean over column j of the attribution array, whose columns are those
  of X) with the j-th name of that list.
\<close>

theorem feature_names_misaligned:
  assumes "build_X fdf aoh True idx = Inr X"
    and "feature_names fdf True adducts_columns = Inr feat_names"
    and "importance_frames attr msk feat_names i [c] [] = Inr loc_df"
  shows "(\<exists>F A. loc_rows (feat_rows fdf) (map (\<lambda>k. k ! 0) idx) = Inr F
            \<and> loc_rows aoh (map (\<lambda>k. k ! 1) idx) = Inr A
            \<and> length F = length idx \<and> length A = length idx
            \<and> X = map (\<lambda>(x, a). x @ a) (zip F A))
       \<and> (\<exists>ac. adducts_columns = Some ac \<and> feat_names = ac @ feat_columns fdf)
       \<and> length loc_df = length feat_names
       \<and> (\<forall>j<length feat_names.
              feature_name (loc_df ! j) = feat_names ! j
            \<and> mean_abs_shap (loc_df ! j) = loc_mean_abs attr msk i ! j)"
proof -
  have X: "\<exists>F A. loc_rows (feat_rows fdf) (map (\<lambda>k. k ! 0) idx) = Inr F
            \<and> loc_rows aoh (map (\<lambda>k. k ! 1) idx) = Inr A
            \<and> length F = length idx \<and> length A = length idx
            \<and> X = map (\<lambda>(x, a). x @ a) (zip F A)"
    using assms(1)
    by (auto simp: build_X_def then_err_Inr get_level_values_def with_index_def split: if_splits)
  have names: "\<exists>ac. adducts_columns = Some ac \<and> feat_names = ac @ feat_columns fdf"
    using assms(2) by (auto simp: feature_names_def Let_def split: option.splits)
  from importance_frames_Inr[OF assms(3)] have
    df: "loc_df = importance_block attr msk feat_names (i, c)" and
    len: "length (loc_mean_abs attr msk i) = length feat_names"
    by (simp_all add: upt_rec[of i])
  have rows: "feature_name (loc_df ! j) = feat_names ! j
            \<and> mean_abs_shap (loc_df ! j) = loc_mean_abs attr msk i ! j"
    if "j < length feat_names" for j
    using that len by (simp add: df importance_block_def)
  have "length loc_df = length feat_names"
    using len by (simp add: df importance_block_def)
  with X names rows show ?thesis by blast
qed

theorem feature_names_misaligned_witness:
  "build_X toy_mass [(''H'', [1])] True [[''m0'', ''H'']] = Inr [[7, 1]]
   \<and> feature_names toy_mass True (Some [''H'']) = Inr [''H'', ''mass'']
   \<and> (\<exists>loc_df. importance_frames [[[3, 0]]] [[False]] [''H'', ''mass''] 0 [(''DHB'', ''pos'')] []
          = Inr loc_df
        \<and> feature_name (loc_df ! 0) = ''H'' \<and> mean_abs_shap (loc_df ! 0) = Num 3
        \<and> feature_name (loc_df ! 1) = ''mass'' \<and> mean_abs_shap (loc_df ! 1) = Num 0)"
proof -
  have bx: "build_X toy_mass [(''H'', [1])] True [[''m0'', ''H'']] = Inr [[7, 1]]"
    by (simp add: build_X_def toy_mass_def get_level_values_def loc_rows_def with_index_def
          then_err_simps)
  have fnames: "feature_names toy_mass True (Some [''H'']) = Inr [''H'', ''mass'']"
    by (simp add: feature_names_def toy_mass_def)
  have means: "loc_mean_abs [[[3, 0]]] [[False]] 0 = [Num 3, Num 0]"
    by (simp add: loc_mean_abs_def mean_abs_def shape1_def upt_rec[of 0] upt_rec[of "Suc 0"]
          numeral_2_eq_2)
  obtain loc_df where frames:
    "importance_frames [[[3, 0]]] [[False]] [''H'', ''mass''] 0 [(''DHB'', ''pos'')] [] = Inr loc_df"
    by (simp add: means)
  from feature_names_misaligned[OF bx fnames frames] have
    "\<forall>j<length [''H'', ''mass''].
        feature_name (loc_df ! j) = [''H'', ''mass''] ! j
      \<and> mean_abs_shap (loc_df ! j) = loc_mean_abs [[[3, 0]]] [[False]] 0 ! j"
    by blast
  from this[rule_format, of 0] this[rule_format, of 1] show ?thesis
    using bx fnames frames by (simp add: means)
qed

section \<open>C10: the long-form table needs a row index of two levels\<close>

lemma KMeans_fit_Inr:
  assumes "KMeans_fit ext Y = Inr cl"
  shows "10 \<le> length Y"
  using assms by (auto simp: KMeans_fit_def split: if_splits)

lemma prepared_single_level:
  assumes "prepare_training_data ext df fdf aoh task False = Inr p"
  shows "\<forall>k\<in>set (index (prep_Y p)). length k = 1"
    and "index (prep_Y p) \<noteq> []"
    and "columns (prep_Y p) \<noteq> []"
    and "cell (prep_Y p) r c \<noteq> NaN"
    and "task = ''ranking'' \<or> task = ''detection'' \<or> task = ''regression''"
proof -
  from assms obtain Y Yd Yna X cl Yf im where
    r: "reshape_observations df task False = Inr (Y, Yd, Yna)" and
    km: "KMeans_fit ext (to_numpy Y) = Inr cl" and
    t: "task_targets task Y Yd Yna = Inr (Yf, im)" and
    p: "p = \<lparr>prep_X = X, prep_Y = Yf, prep_Y_detected = Yd, prep_Y_is_na = Yna,
          prep_clustering = cl, prep_ignore_mask = im\<rparr>"
    by (rule prepare_Inr)
  note R = reshape_observations_Inr[OF r]
  from t show task: "task = ''ranking'' \<or> task = ''detection'' \<or> task = ''regression''"
    by (auto simp: task_targets_def split: if_splits)
  from t have target: "Yf = assign_where Yna (Num (- 1)) Y \<or> Yf = Yd \<or> Yf = Y"
    by (auto simp: task_targets_def split: if_splits)
  then have Yf: "index Yf = index Y" "columns Yf = columns Y"
    by (elim disjE; simp add: frame_op_simps R(2,3,4,5))+
  have sub: "set (index Y) \<subseteq> set (map (row_key (index_cols False)) df)"
    unfolding R(3) by auto
  show "\<forall>k\<in>set (index (prep_Y p)). length k = 1"
    using sub by (auto simp: p Yf row_key_def index_cols_def)
  have "10 \<le> length (index Y)"
    using KMeans_fit_Inr[OF km] by (simp add: to_numpy_def)
  then show ne: "index (prep_Y p) \<noteq> []"
    by (auto simp: p Yf)
  then have "df \<noteq> []" using sub by (auto simp: p Yf)
  then show "columns (prep_Y p) \<noteq> []"
    by (simp add: p Yf R(2) set_unique flip: set_empty)
  show "cell (prep_Y p) r c \<noteq> NaN"
    using target
    by (elim disjE; simp add: p frame_op_simps R(8,9,10) split: option.splits)
qed

lemma join_inner_nonempty:
  assumes "(k, a) \<in> set left" "(k, b) \<in> set right"
  shows "join_inner left right \<noteq> []"
proof -
  have "(k, a, b) \<in> set (join_inner left right)"
    using assms by (force simp: join_inner_def)
  then show ?thesis by auto
qed

lemma join_inner_keys:
  assumes "kv \<in> set (join_inner left right)"
  shows "fst kv \<in> fst ` set left"
  using assms by (force simp: join_inner_def)

lemma stack_keys:
  assumes "kv \<in> set (stack Y)"
  shows "\<exists>r\<in>set (index Y). \<exists>c. fst kv = r @ [fst c, snd c]"
  using assms by (auto simp: stack_def)

lemma stack_member:
  assumes "r \<in> set (index Y)" "c \<in> set (columns Y)" "cell Y r c \<noteq> NaN"
  shows "(r @ [fst c, snd c], cell Y r c) \<in> set (stack Y)"
  using assms by (auto simp: stack_def)

lemma stack_array_member:
  assumes "stack_array idx cols arr = Inr sp" "idx \<noteq> []" "cols \<noteq> []"
  shows "\<exists>v. (hd idx @ [fst (hd cols), snd (hd cols)], v) \<in> set sp"
proof -
  from assms(1) have len: "length arr = length idx" and
    widths: "\<forall>p\<in>set arr. length p = length cols" and
    sp: "sp = concat (map (\<lambda>(r, p). map (\<lambda>(c, v). (r @ [fst c, snd c], v)) (zip cols p)) (zip idx arr))"
    by (auto simp: stack_array_def list_ex_iff split: if_splits)
  from len assms(2) obtain r idx' p arr' where i: "idx = r # idx'" and a: "arr = p # arr'"
    by (cases idx; cases arr) auto
  from widths a have "length p = length cols" by simp
  with assms(3) obtain c cols' v p' where c: "cols = c # cols'" and pv: "p = v # p'"
    by (cases cols; cases p) auto
  show ?thesis unfolding sp i a c pv by auto
qed


lemma loc_rows_missing:
  assumes "l \<in> set labels" "l \<notin> fst ` set df"
  shows "loc_rows df labels = Inl KeyError"
  using assms by (auto simp: loc_rows_def list_ex_iff)

lemma get_level_values_ok:
  assumes "\<forall>k\<in>set idx. i < length k"
  shows "get_level_values i idx = Inr (map (\<lambda>k. k ! i) idx)"
proof -
  have "\<not> list_ex (\<lambda>k. length k \<le> i) idx"
    using assms by (fastforce simp: list_ex_iff)
  then show ?thesis by (simp add: get_level_values_def)
qed

lemma reshape_results_KeyError:
  assumes lvl: "\<forall>k\<in>set (index Y). length k = 1"
    and ne: "index Y \<noteq> []" "columns Y \<noteq> []"
    and nonan: "\<forall>r c. cell Y r c \<noteq> NaN"
    and tr: "with_index (index Y) (sort_key row_index out) = Inr tr"
    and sp: "stack_array (index Y) (columns Y) (map row_predictions tr) = Inr sp"
  shows "reshape_results Y out = Inl KeyError"
proof -
  let ?ro = "join_inner (stack Y) sp"
  let ?k0 = "hd (index Y) @ [fst (hd (columns Y)), snd (hd (columns Y))]"
  have keys: "\<exists>r\<in>set (index Y). \<exists>c. fst kv = r @ [fst c, snd c]" if "kv \<in> set ?ro" for kv
  proof -
    from join_inner_keys[OF that] obtain kv' where "kv' \<in> set (stack Y)" "fst kv = fst kv'"
      by auto
    with stack_keys[of kv' Y] show ?thesis by simp
  qed
  have len3: "length (fst kv) = 3" if "kv \<in> set ?ro" for kv
    using keys[OF that] lvl by auto
  have big: "length k = 3" if "k \<in> set (map fst ?ro)" for k
  proof -
    from that obtain kv where "kv \<in> set ?ro" "k = fst kv" by auto
    then show ?thesis using len3 by simp
  qed
  have l0: "get_level_values 0 (map fst ?ro) = Inr (map (\<lambda>k. k ! 0) (map fst ?ro))"
  proof (rule get_level_values_ok, rule ballI)
    fix k assume "k \<in> set (map fst ?ro)"
    then have "length k = 3" by (rule big)
    then show "0 < length k" by simp
  qed
  have l1: "get_level_values 1 (map fst ?ro) = Inr (map (\<lambda>k. k ! 1) (map fst ?ro))"
  proof (rule get_level_values_ok, rule ballI)
    fix k assume "k \<in> set (map fst ?ro)"
    then have "length k = 3" by (rule big)
    then show "1 < length k" by simp
  qed
  have "(?k0, cell Y (hd (index Y)) (hd (columns Y))) \<in> set (stack Y)"
  proof (rule stack_member)
    show "hd (index Y) \<in> set (index Y)" using ne(1) by simp
    show "hd (columns Y) \<in> set (columns Y)" using ne(2) by simp
    show "cell Y (hd (index Y)) (hd (columns Y)) \<noteq> NaN" using nonan by blast
  qed
  moreover obtain v where "(?k0, v) \<in> set sp"
    using stack_array_member[OF sp ne] by blast
  ultimately have "?ro \<noteq> []" by (rule join_inner_nonempty)
  then obtain kv ro' where ro: "?ro = kv # ro'" by (cases ?ro) auto
  let ?labels = "map (\<lambda>(a, b). [a, b])
      (zip (map (\<lambda>k. k ! 0) (map fst ?ro)) (map (\<lambda>k. k ! 1) (map fst ?ro)))"
  let ?l = "[fst kv ! 0, fst kv ! 1]"
  have "?l \<in> set ?labels" unfolding ro by simp
  moreover have "?l \<notin> fst ` set (zip (index Y) (map fold_id tr))"
  proof
    assume "?l \<in> fst ` set (zip (index Y) (map fold_id tr))"
    then have "?l \<in> set (index Y)" by (auto dest: set_zip_leftD)
    with lvl show False by auto
  qed
  ultimately have missing: "loc_rows (zip (index Y) (map fold_id tr)) ?labels = Inl KeyError"
    by (rule loc_rows_missing)
  show ?thesis
    unfolding reshape_results_def Let_def
    by (simp only: tr sp l0 l1 missing then_err_simps)
qed

lemma reshape_results_single_level:
  assumes "\<forall>k\<in>set (index Y). length k = 1" "index Y \<noteq> []" "columns Y \<noteq> []"
    "\<forall>r c. cell Y r c \<noteq> NaN"
  shows "isl (reshape_results Y out)"
proof (cases "with_index (index Y) (sort_key row_index out)")
  case (Inl e)
  then show ?thesis by (simp add: reshape_results_def Let_def then_err_simps)
next
  case tr: (Inr tr)
  show ?thesis
  proof (cases "stack_array (index Y) (columns Y) (map row_predictions tr)")
    case (Inl e)
    then show ?thesis by (simp add: reshape_results_def Let_def tr then_err_simps)
  next
    case (Inr sp)
    from reshape_results_KeyError[OF assms tr Inr] show ?thesis by simp
  qed
qed

lemma toy_run_detection:
  "case prepare_training_data toy_externals toy_intensities toy_features [] ''detection'' False of
     Inl e \<Rightarrow> False
   | Inr p \<Rightarrow>
       (case snd (train_torch_model_cross_val_loop toy_externals (prep_X p) (to_numpy (prep_Y p))
                    ''detection'' (prep_clustering p) (prep_ignore_mask p) 20 8 0.01 2 32) of
          Inl e \<Rightarrow> False
        | Inr out \<Rightarrow>
            length out = length (index (prep_Y p))
            \<and> list_all (\<lambda>row. length (row_predictions row) = length (columns (prep_Y p))) out)"
  by code_simp

text \<open>With adduct features the same input gives a table.\<close>

lemma long_form_with_adducts_toy:
  "\<not> isl (snd (train_pytorch_model_on_intensities toy_externals toy_intensities toy_features
               [(''H'', [1])] ''detection'' False None 2 None True None))"
  by code_simp


text \<open>
  C10.  Without adduct features (and without feature selection) the orchestrator never
  returns a table.  The row index of Y then has the molecule as its only level, while
  line 319 looks the fold up under pairs of the first two levels of the stacked index
  (molecule, matrix); whenever the steps before that lookup succeed (the preparation,
  the cross-validation, and a results table with one row per row of Y and one
  prediction per column of Y), the lookup raises KeyError.
\<close>

theorem long_form_needs_two_levels:
  "isl (snd (train_pytorch_model_on_intensities ext df fdf aoh task False path k ckpt False ac))
   \<and> (\<forall>p out. prepare_training_data ext df fdf aoh task False = Inr p
         \<and> snd (train_torch_model_cross_val_loop ext (prep_X p) (to_numpy (prep_Y p)) task
                  (prep_clustering p) (prep_ignore_mask p) 20 8 0.01 k 32) = Inr out
         \<and> length out = length (index (prep_Y p))
         \<and> (\<forall>row\<in>set out. length (row_predictions row) = length (columns (prep_Y p))) \<longrightarrow>
         snd (train_pytorch_model_on_intensities ext df fdf aoh task False path k ckpt False ac)
           = Inl KeyError)"
proof -
  have run: "snd (train_pytorch_model_on_intensities ext df fdf aoh task False path k ckpt False ac)
      = then_err (reshape_results (prep_Y p) out) (\<lambda>t. Inr (Long_form t))"
    if "prepare_training_data ext df fdf aoh task False = Inr p"
      "snd (train_torch_model_cross_val_loop ext (prep_X p) (to_numpy (prep_Y p)) task
                  (prep_clustering p) (prep_ignore_mask p) 20 8 0.01 k 32) = Inr out" for p out
    using that
    by (cases "reshape_results (prep_Y p) out")
       (simp_all add: train_pytorch_model_on_intensities_def then_run_def lift_def ret_def
          then_err_simps)
  have never: "isl (snd (train_pytorch_model_on_intensities ext df fdf aoh task False path k
      ckpt False ac))"
  proof (cases "prepare_training_data ext df fdf aoh task False")
    case (Inl e)
    then show ?thesis
      by (simp add: train_pytorch_model_on_intensities_def then_run_simps)
  next
    case p: (Inr p)
    show ?thesis
    proof (cases "snd (train_torch_model_cross_val_loop ext (prep_X p) (to_numpy (prep_Y p)) task
                  (prep_clustering p) (prep_ignore_mask p) 20 8 0.01 k 32)")
      case (Inl e)
      then show ?thesis
        by (simp add: train_pytorch_model_on_intensities_def p then_run_def lift_def)
    next
      case (Inr out)
      have "isl (reshape_results (prep_Y p) out)"
        using prepared_single_level(1-4)[OF p] by (intro reshape_results_single_level) auto
      then show ?thesis
        unfolding run[OF p Inr] by (cases "reshape_results (prep_Y p) out") (simp_all add: then_err_simps)
    qed
  qed
  have lookup: "snd (train_pytorch_model_on_intensities ext df fdf aoh task False path k ckpt
      False ac) = Inl KeyError"
    if p: "prepare_training_data ext df fdf aoh task False = Inr p"
      and out: "snd (train_torch_model_cross_val_loop ext (prep_X p) (to_numpy (prep_Y p)) task
                  (prep_clustering p) (prep_ignore_mask p) 20 8 0.01 k 32) = Inr out"
      and len: "length out = length (index (prep_Y p))"
      and widths: "\<forall>row\<in>set out. length (row_predictions row) = length (columns (prep_Y p))"
    for p out
  proof -
    have tr: "with_index (index (prep_Y p)) (sort_key row_index out) = Inr (sort_key row_index out)"
      using len by (simp add: with_index_def)
    have sp: "\<exists>sp. stack_array (index (prep_Y p)) (columns (prep_Y p))
        (map row_predictions (sort_key row_index out)) = Inr sp"
      using len widths by (simp add: stack_array_def list_ex_iff)
    then obtain sp where sp: "stack_array (index (prep_Y p)) (columns (prep_Y p))
        (map row_predictions (sort_key row_index out)) = Inr sp" by blast
    have "reshape_results (prep_Y p) out = Inl KeyError"
      using prepared_single_level(1-4)[OF p] by (intro reshape_results_KeyError[OF _ _ _ _ tr sp]) auto
    then show ?thesis by (simp add: run[OF p out] then_err_simps)
  qed
  show ?thesis using never lookup by blast
qed


theorem long_form_needs_two_levels_witness:
  "snd (train_pytorch_model_on_intensities toy_externals toy_intensities toy_features []
          ''detection'' False None 2 None False None) = Inl KeyError"
proof -
  from toy_run_detection obtain p out where
    p: "prepare_training_data toy_externals toy_intensities toy_features [] ''detection'' False
          = Inr p" and
    out: "snd (train_torch_model_cross_val_loop toy_externals (prep_X p) (to_numpy (prep_Y p))
                 ''detection'' (prep_clustering p) (prep_ignore_mask p) 20 8 0.01 2 32) = Inr out" and
    shape: "length out = length (index (prep_Y p))"
      "\<forall>row\<in>set out. length (row_predictions row) = length (columns (prep_Y p))"
    by (auto simp: list_all_iff split: sum.splits)
  from long_form_needs_two_levels[of toy_externals toy_intensities toy_features "[]"
      "''detection''" None 2 None None] p out shape
  show ?thesis by blast
qed


end
